theory Spec2Isabelle
  imports Complex_Main "HOL-Library.Sublist"
begin

section \<open>JavaScript strings\<close>

text \<open>
  A JavaScript string is a sequence of code units; the model uses \<^typ>\<open>string\<close> and
  reads a \<^typ>\<open>char\<close> as the code unit of the same number (0 to 255, the Latin-1
  range). On that range \<^verbatim>\<open>toLowerCase\<close> works code unit by code unit: A to Z and
  the accented capitals 0xC0 to 0xDE (without the multiplication sign 0xD7) move up
  by 32, everything else stays. \<^verbatim>\<open>trim\<close> and the regular expression class
  \<^verbatim>\<open>\s\<close> use the same white space set: tab, line feed, vertical tab, form feed,
  carriage return, space and the no-break space 0xA0.
\<close>

definition toLowerCase_char :: "char \<Rightarrow> char" where
  "toLowerCase_char c =
     (let n = (of_char c :: nat)
      in if (65 \<le> n \<and> n \<le> 90) \<or> (192 \<le> n \<and> n \<le> 222 \<and> n \<noteq> 215)
         then char_of (n + 32) else c)"

definition toLowerCase :: "string \<Rightarrow> string" where
  "toLowerCase s = map toLowerCase_char s"

definition isWhiteSpace :: "char \<Rightarrow> bool" where
  "isWhiteSpace c =
     (let n = (of_char c :: nat) in (9 \<le> n \<and> n \<le> 13) \<or> n = 32 \<or> n = 160)"

definition trim :: "string \<Rightarrow> string" where
  "trim s = rev (dropWhile isWhiteSpace (rev (dropWhile isWhiteSpace s)))"

definition startsWith :: "string \<Rightarrow> string \<Rightarrow> bool" where
  "startsWith s p = prefix p s"

definition endsWith :: "string \<Rightarrow> string \<Rightarrow> bool" where
  "endsWith s p = suffix p s"

text \<open>\<^verbatim>\<open>s.includes(p)\<close>: \<open>p\<close> occurs in \<open>s\<close> as a contiguous run.\<close>

fun includes_str :: "string \<Rightarrow> string \<Rightarrow> bool" where
  "includes_str [] p = (p = [])"
| "includes_str (c # cs) p = (prefix p (c # cs) \<or> includes_str cs p)"

text \<open>
  \<^verbatim>\<open>s.replace(pat, rep)\<close> with a string pattern replaces the first occurrence only.
  The replacement strings of this program contain no \<^verbatim>\<open>$\<close>, so the replacement is
  inserted literally.
\<close>

fun replace :: "string \<Rightarrow> string \<Rightarrow> string \<Rightarrow> string" where
  "replace [] pat rep = (if pat = [] then rep else [])"
| "replace (c # cs) pat rep =
     (if prefix pat (c # cs) then rep @ drop (length pat) (c # cs)
      else c # replace cs pat rep)"

text \<open>\<^verbatim>\<open>s.slice(0, -k)\<close> for \<open>0 < k\<close>: everything but the last \<open>k\<close> code units.\<close>

definition slice_end :: "string \<Rightarrow> nat \<Rightarrow> string" where
  "slice_end s k = take (length s - k) s"

section \<open>Tag normalisation (utils/tagNormalizer)\<close>

text \<open>
  \<^verbatim>\<open>COMMON_VARIATIONS\<close>: the entries of each object in the order
  \<^verbatim>\<open>Object.entries\<close> yields them, which is the order they are written in.
\<close>

definition plurals :: "(string \<times> string) list" where
  "plurals = [(''s'', ''''), (''es'', ''''), (''ies'', ''y'')]"

definition prefixes_tbl :: "(string \<times> string) list" where
  "prefixes_tbl = [(''the '', ''''), (''a '', ''''), (''an '', '''')]"

definition PRESERVED_TERMS :: "string list" where
  "PRESERVED_TERMS =
     [''aws'', ''apis'', ''dns'', ''ios'', ''css'', ''sass'', ''less'', ''news'',
      ''devops'', ''kubernetes'', ''tensorflow'']"

text \<open>One round of the prefix loop of \<^verbatim>\<open>normalizeTag\<close>.\<close>

definition prefix_step :: "string \<Rightarrow> string \<times> string \<Rightarrow> string" where
  "prefix_step normalized e =
     (if startsWith normalized (fst e) then replace normalized (fst e) (snd e)
      else normalized)"

text \<open>One round of the plural loop of \<^verbatim>\<open>normalizeTag\<close>.\<close>

definition plural_step :: "string \<Rightarrow> string \<times> string \<Rightarrow> string" where
  "plural_step normalized e =
     (if endsWith normalized (fst e) \<and> length normalized > length (fst e)
      then (let singular = slice_end normalized (length (fst e)) @ snd e
            in if length singular \<ge> 2 then singular else normalized)
      else normalized)"

definition normalizeTag :: "string \<Rightarrow> string" where
  "normalizeTag tag =
     (if tag = [] then []
      else let normalized = trim (toLowerCase tag)
           in if normalized \<in> set PRESERVED_TERMS then normalized
              else foldl plural_step (foldl prefix_step normalized prefixes_tbl) plurals)"

section \<open>Errors\<close>

text \<open>
  A thrown JavaScript value. \<open>Error msg\<close> is \<^verbatim>\<open>new Error(msg)\<close>; \<open>TypeError\<close> and
  \<open>SyntaxError\<close> are the built-in errors of a property access on a value that has
  none and of \<^verbatim>\<open>JSON.parse\<close>. A function that can throw returns \<open>error + 'a\<close>.
\<close>

datatype error = Error string | TypeError | SyntaxError

text \<open>\<^verbatim>\<open>error.message\<close>; the built-in errors carry a message of the engine's choosing.\<close>

fun message :: "error \<Rightarrow> string" where
  "message (Error msg) = msg"
| "message TypeError = ''TypeError''"
| "message SyntaxError = ''SyntaxError''"

section \<open>The string-similarity package\<close>

text \<open>
  \<^verbatim>\<open>tagNormalizer\<close> calls \<^verbatim>\<open>findBestMatch\<close> of the npm package string-similarity,
  which is not part of the repository. The two functions below follow the package's
  source (version 4): \<^verbatim>\<open>compareTwoStrings\<close> is the Dice coefficient over the bigrams
  of the two strings with white space removed, and \<^verbatim>\<open>findBestMatch\<close> rejects an
  empty list of targets with an error before it rates anything.

  Ratings are modelled as exact rationals. The program computes them in double
  precision and compares them with each other and with 0.85; for strings shorter
  than \<open>2 ^ 24\<close> code units two different quotients differ by more than the rounding
  error, and the double nearest to 17/20 is the literal 0.85, so the comparisons
  agree with the exact ones.
\<close>

fun bigrams :: "string \<Rightarrow> string list" where
  "bigrams (a # b # cs) = [a, b] # bigrams (b # cs)"
| "bigrams _ = []"

definition count_bigram :: "(string \<rightharpoonup> nat) \<Rightarrow> string \<Rightarrow> (string \<rightharpoonup> nat)" where
  "count_bigram firstBigrams bigram =
     firstBigrams(bigram \<mapsto> (case firstBigrams bigram of Some c \<Rightarrow> c + 1 | None \<Rightarrow> 1))"

definition intersect_step ::
  "(string \<rightharpoonup> nat) \<times> nat \<Rightarrow> string \<Rightarrow> (string \<rightharpoonup> nat) \<times> nat" where
  "intersect_step st bigram =
     (let count = (case fst st bigram of Some c \<Rightarrow> c | None \<Rightarrow> 0)
      in if count > 0 then ((fst st)(bigram \<mapsto> count - 1), snd st + 1) else st)"

definition compareTwoStrings :: "string \<Rightarrow> string \<Rightarrow> rat" where
  "compareTwoStrings first0 second0 =
     (let first = filter (\<lambda>c. \<not> isWhiteSpace c) first0;
          second = filter (\<lambda>c. \<not> isWhiteSpace c) second0
      in if first = second then 1
         else if length first < 2 \<or> length second < 2 then 0
         else let firstBigrams = foldl count_bigram Map.empty (bigrams first);
                  intersectionSize =
                    snd (foldl intersect_step (firstBigrams, 0) (bigrams second))
              in of_nat (2 * intersectionSize) / of_nat (length first + length second - 2))"

record rating_entry =
  target :: string
  rating :: rat

record best_match =
  ratings :: "rating_entry list"
  bestMatch :: rating_entry
  bestMatchIndex :: nat

text \<open>
  The loop of \<^verbatim>\<open>findBestMatch\<close>; the loop index \<open>i\<close> is the number of ratings
  pushed so far.
\<close>

fun findBestMatch_loop ::
  "string \<Rightarrow> string list \<Rightarrow> rating_entry list \<Rightarrow> nat \<Rightarrow> rating_entry list \<times> nat" where
  "findBestMatch_loop mainString [] rs best = (rs, best)"
| "findBestMatch_loop mainString (t # ts) rs best =
     (let currentRating = compareTwoStrings mainString t;
          rs' = rs @ [\<lparr>target = t, rating = currentRating\<rparr>]
      in findBestMatch_loop mainString ts rs'
           (if currentRating > rating (rs' ! best) then length rs else best))"

definition findBestMatch :: "string \<Rightarrow> string list \<Rightarrow> error + best_match" where
  "findBestMatch mainString targetStrings =
     (if targetStrings = [] then
        Inl (Error ''Bad arguments: First argument should be a string, second should be an array of strings'')
      else let (rs, best) = findBestMatch_loop mainString targetStrings [] 0
           in Inr \<lparr>ratings = rs, bestMatch = rs ! best, bestMatchIndex = best\<rparr>)"

section \<open>Similar tags and tag processing (utils/tagNormalizer)\<close>

text \<open>
  A value that is a string, \<^verbatim>\<open>null\<close> or \<^verbatim>\<open>undefined\<close> is a \<open>string option\<close>.
  \<^verbatim>\<open>if (v)\<close> takes the branch for a non-empty string only.
\<close>

definition truthy :: "string option \<Rightarrow> bool" where
  "truthy v = (case v of None \<Rightarrow> False | Some s \<Rightarrow> s \<noteq> [])"

definition findSimilarTag :: "string \<Rightarrow> string list \<Rightarrow> rat \<Rightarrow> error + string option" where
  "findSimilarTag newTag existingTags similarityThreshold =
     (let normalizedNew = normalizeTag newTag;
          exactMatch = find (\<lambda>tag. normalizeTag tag = normalizedNew) existingTags
      in if truthy exactMatch then Inr exactMatch
         else case findBestMatch normalizedNew existingTags of
                Inl e \<Rightarrow> Inl e
              | Inr matches \<Rightarrow>
                  if rating (bestMatch matches) \<ge> similarityThreshold
                  then Inr (Some (target (bestMatch matches)))
                  else Inr None)"

text \<open>
  \<^verbatim>\<open>Set.prototype.add\<close> on a set kept as the list of its members in insertion
  order, which is the order \<^verbatim>\<open>Array.from\<close> reads them in.
\<close>

definition set_add :: "string list \<Rightarrow> string \<Rightarrow> string list" where
  "set_add s x = (if x \<in> set s then s else s @ [x])"

text \<open>
  The loop of \<^verbatim>\<open>processTags\<close> over the remaining new tags; an error thrown by
  \<^verbatim>\<open>findSimilarTag\<close> ends it. \<^verbatim>\<open>findSimilarTag\<close> is called with two arguments, so
  its threshold is the default 0.85.
\<close>

fun processTags_loop :: "string list \<Rightarrow> string list \<Rightarrow> string list \<Rightarrow> error + string list" where
  "processTags_loop [] existingTags processedTags = Inr processedTags"
| "processTags_loop (tag # rest) existingTags processedTags =
     (let normalizedTag = normalizeTag tag
      in if normalizedTag = [] then processTags_loop rest existingTags processedTags
         else case findSimilarTag normalizedTag existingTags (85 / 100) of
                Inl e \<Rightarrow> Inl e
              | Inr similarTag \<Rightarrow>
                  if truthy similarTag
                  then processTags_loop rest existingTags (set_add processedTags (the similarTag))
                  else processTags_loop rest existingTags (set_add processedTags normalizedTag))"

definition processTags :: "string list \<Rightarrow> string list \<Rightarrow> error + string list" where
  "processTags newTags existingTags = processTags_loop newTags existingTags []"

section \<open>Provider requests and responses\<close>

text \<open>
  The system prompts are fixed texts; a request names the one it carries. The other
  fields are the ones the two services set: the model, the text of the user message,
  the token limit and the temperature.
\<close>

datatype prompt =
  SummaryPrompt | YouTubeSummaryPrompt | TagsPrompt | YouTubeTagsPrompt | CategoryPrompt

record request =
  model :: string
  system :: prompt
  user_content :: string
  max_tokens :: nat
  temperature :: rat

text \<open>
  A provider client answers a request with the text found at the path the service
  reads (\<^verbatim>\<open>response.content[0].text\<close>, \<^verbatim>\<open>response.data.choices[0].message.content\<close>),
  or fails: a rejected call and a response without that path both throw inside the
  same \<^verbatim>\<open>try\<close> block. Every sub-operation returns its value together with the
  requests it sent.
\<close>

type_synonym client = "request \<Rightarrow> error + string"

datatype json =
  JNull | JBool bool | JNumber rat | JString string | JArray "json list"
| JObject "(string \<times> json) list"

text \<open>\<^verbatim>\<open>JSON.parse\<close> is a parameter of the model: it returns the parsed value or throws.\<close>

type_synonym parser = "string \<Rightarrow> error + json"

record analysis =
  summary :: string
  tags :: "string list"
  category :: string

text \<open>\<^verbatim>\<open>promise.catch(handler)\<close> on a settled promise.\<close>

definition catch :: "error + 'a \<Rightarrow> (error \<Rightarrow> 'a) \<Rightarrow> 'a" where
  "catch p handler = (case p of Inl e \<Rightarrow> handler e | Inr v \<Rightarrow> v)"

text \<open>\<^verbatim>\<open>`URL: ${url}\n\nContent: ${text}`\<close>\<close>

definition url_and_content :: "string \<Rightarrow> string \<Rightarrow> string" where
  "url_and_content url text = ''URL: '' @ url @ [CHR 0x0A, CHR 0x0A] @ ''Content: '' @ text"

text \<open>\<^verbatim>\<open>content.substring(0, n)\<close>\<close>

definition substring0 :: "string \<Rightarrow> nat \<Rightarrow> string" where
  "substring0 s n = take n s"

definition valid_categories :: "string list" where
  "valid_categories = [''Article'', ''Video'', ''Research'']"

text \<open>
  \<^verbatim>\<open>tags.map(tag => tag.toLowerCase().trim())\<close> on a parsed value: a value that is not
  an array has no \<^verbatim>\<open>map\<close>, an element that is not a string has no
  \<^verbatim>\<open>toLowerCase\<close>; both throw a TypeError.
\<close>

fun map_tags :: "json list \<Rightarrow> error + string list" where
  "map_tags [] = Inr []"
| "map_tags (JString tag # xs) =
     (case map_tags xs of Inl e \<Rightarrow> Inl e | Inr ys \<Rightarrow> Inr (trim (toLowerCase tag) # ys))"
| "map_tags (_ # xs) = Inl TypeError"

text \<open>The map and filter chain of \<^verbatim>\<open>generateTags\<close>, over a given list of generic terms.\<close>

definition clean_tags :: "string list \<Rightarrow> json \<Rightarrow> error + string list" where
  "clean_tags genericTerms v =
     (case v of
        JArray xs \<Rightarrow>
          (case map_tags xs of
             Inl e \<Rightarrow> Inl e
           | Inr ts \<Rightarrow>
               Inr (filter (\<lambda>tag. tag \<noteq> [] \<and> length tag > 0
                                 \<and> toLowerCase tag \<notin> set genericTerms
                                 \<and> length tag \<le> 50) ts))
      | _ \<Rightarrow> Inl TypeError)"

text \<open>
  The inner \<^verbatim>\<open>try\<close> of \<^verbatim>\<open>generateTags\<close>: parse the answer, clean the tags, and
  return the empty list when either throws.
\<close>

definition parse_tags :: "parser \<Rightarrow> string list \<Rightarrow> string \<Rightarrow> string list" where
  "parse_tags JSON_parse genericTerms tagContent =
     (case JSON_parse tagContent of
        Inl e \<Rightarrow> []
      | Inr v \<Rightarrow> (case clean_tags genericTerms v of Inl e \<Rightarrow> [] | Inr ts \<Rightarrow> ts))"

section \<open>The Claude service (services/claude)\<close>

definition createClaudeClient :: "(string \<Rightarrow> client) \<Rightarrow> string option \<Rightarrow> error + client" where
  "createClaudeClient Anthropic apiKey =
     (if \<not> truthy apiKey
      then Inl (Error ''Claude API key is required. Please add it in your account settings.'')
      else Inr (Anthropic (the apiKey)))"

definition isYouTube :: "string \<Rightarrow> bool" where
  "isYouTube url =
     (includes_str (toLowerCase url) ''youtube.com'' \<or> includes_str (toLowerCase url) ''youtu.be'')"

definition claude_category_request :: "string \<Rightarrow> string \<Rightarrow> request" where
  "claude_category_request content url =
     \<lparr>model = ''claude-3-opus-20240229'', system = CategoryPrompt,
      user_content = url_and_content url (substring0 content 2000),
      max_tokens = 10, temperature = 1 / 10\<rparr>"

definition claude_determineCategory ::
  "string \<Rightarrow> string \<Rightarrow> client \<Rightarrow> (error + string) \<times> request list" where
  "claude_determineCategory content url claudeClient =
     (let urlLower = toLowerCase url
      in if includes_str urlLower ''youtube.com'' \<or> includes_str urlLower ''youtu.be''
            \<or> includes_str urlLower ''vimeo.com'' \<or> includes_str urlLower ''dailymotion.com''
         then (Inr ''Video'', [])
         else if includes_str urlLower ''arxiv.org'' \<or> includes_str urlLower ''research''
                 \<or> includes_str urlLower ''paper'' \<or> includes_str urlLower ''doi.org''
         then (Inr ''Research'', [])
         else let req = claude_category_request content url
              in (case claudeClient req of
                    Inl e \<Rightarrow> (Inr ''Article'', [req])
                  | Inr text \<Rightarrow>
                      (let category = trim text
                       in if category \<in> set valid_categories then (Inr category, [req])
                          else (Inr ''Article'', [req]))))"

definition claude_genericTerms :: "string list" where
  "claude_genericTerms =
     [''other'', ''miscellaneous'', ''general'', ''misc'', ''various'', ''article'',
      ''content'', ''video'', ''youtube'']"

definition claude_tags_request :: "string \<Rightarrow> string \<Rightarrow> request" where
  "claude_tags_request content url =
     \<lparr>model = ''claude-3-opus-20240229'',
      system = (if isYouTube url then YouTubeTagsPrompt else TagsPrompt),
      user_content = url_and_content url content,
      max_tokens = 100, temperature = 3 / 10\<rparr>"

definition claude_generateTags ::
  "parser \<Rightarrow> string \<Rightarrow> string \<Rightarrow> client \<Rightarrow> (error + string list) \<times> request list" where
  "claude_generateTags JSON_parse content url claudeClient =
     (let req = claude_tags_request content url
      in (case claudeClient req of
            Inl e \<Rightarrow> (Inr [], [req])
          | Inr tagContent \<Rightarrow> (Inr (parse_tags JSON_parse claude_genericTerms tagContent), [req])))"

definition claude_summary_request :: "string \<Rightarrow> string \<Rightarrow> request" where
  "claude_summary_request content url =
     \<lparr>model = ''claude-3-opus-20240229'',
      system = (if isYouTube url then YouTubeSummaryPrompt else SummaryPrompt),
      user_content = content,
      max_tokens = 150, temperature = 3 / 10\<rparr>"

definition summary_failed :: string where
  "summary_failed = ''Summary generation failed. Please try again later.''"

definition claude_generateSummary ::
  "string \<Rightarrow> string \<Rightarrow> client \<Rightarrow> (error + string) \<times> request list" where
  "claude_generateSummary content url claudeClient =
     (let req = claude_summary_request content url
      in (case claudeClient req of
            Inl e \<Rightarrow> (Inr summary_failed, [req])
          | Inr text \<Rightarrow>
              (let summary = trim text
               in (Inr (if summary = [] then ''No summary available.'' else summary), [req]))))"

text \<open>
  \<^verbatim>\<open>Promise.all\<close> over the three wrapped sub-operations. Each async function runs
  up to its request when it is called, so the requests leave in the order summary,
  tags, category; the three share no state, so the order in which the answers
  arrive does not change the values.

  \<^verbatim>\<open>analyzeContent\<close> reads the three sub-operations from the module's exports object
  (\<^verbatim>\<open>this.generateSummary\<close>, \<^verbatim>\<open>this.generateTags\<close>, \<^verbatim>\<open>this.determineCategory\<close>) when
  it runs, so what it calls is whatever the exports hold then. \<open>claude_analyzeContent_on\<close>
  is the function over any three sub-operations, each returning a settled promise
  (rejected or fulfilled) and the requests it sent; \<open>claude_analyzeContent\<close> is the
  service as the module defines it, with its own three functions.
\<close>

definition claude_analyzeContent_on ::
  "(string \<Rightarrow> string \<Rightarrow> client \<Rightarrow> (error + string) \<times> request list)
   \<Rightarrow> (string \<Rightarrow> string \<Rightarrow> client \<Rightarrow> (error + string list) \<times> request list)
   \<Rightarrow> (string \<Rightarrow> string \<Rightarrow> client \<Rightarrow> (error + string) \<times> request list)
   \<Rightarrow> (string \<Rightarrow> client) \<Rightarrow> string \<Rightarrow> string \<Rightarrow> string option \<Rightarrow> analysis \<times> request list" where
  "claude_analyzeContent_on this_generateSummary this_generateTags this_determineCategory
       Anthropic url content userApiKey =
     (case createClaudeClient Anthropic userApiKey of
        Inl e \<Rightarrow> (\<lparr>summary = summary_failed, tags = [], category = ''Article''\<rparr>, [])
      | Inr claude \<Rightarrow>
          (let (summaryP, t1) = this_generateSummary content url claude;
               (tagsP, t2) = this_generateTags content url claude;
               (categoryP, t3) = this_determineCategory content url claude;
               summaryResult = catch summaryP (\<lambda>error. summary_failed);
               tagsResult = catch tagsP (\<lambda>error. []);
               categoryResult = catch categoryP (\<lambda>error. ''Article'')
           in (\<lparr>summary = summaryResult, tags = tagsResult, category = categoryResult\<rparr>,
               t1 @ t2 @ t3)))"

definition claude_analyzeContent ::
  "(string \<Rightarrow> client) \<Rightarrow> parser \<Rightarrow> string \<Rightarrow> string \<Rightarrow> string option \<Rightarrow> analysis \<times> request list" where
  "claude_analyzeContent Anthropic JSON_parse url content userApiKey =
     claude_analyzeContent_on claude_generateSummary (claude_generateTags JSON_parse)
       claude_determineCategory Anthropic url content userApiKey"

section \<open>The OpenAI service (services/openai)\<close>

definition createOpenAIClient :: "(string \<Rightarrow> client) \<Rightarrow> string option \<Rightarrow> error + client" where
  "createOpenAIClient OpenAIApi apiKey =
     (if \<not> truthy apiKey
      then Inl (Error ''OpenAI API key is required. Please add it in your account settings.'')
      else Inr (OpenAIApi (the apiKey)))"

definition openai_category_request :: "string \<Rightarrow> string \<Rightarrow> request" where
  "openai_category_request content url =
     \<lparr>model = ''gpt-4'', system = CategoryPrompt,
      user_content = url_and_content url (substring0 content 1000),
      max_tokens = 10, temperature = 1 / 10\<rparr>"

definition openai_determineCategory ::
  "string \<Rightarrow> string \<Rightarrow> client \<Rightarrow> (error + string) \<times> request list" where
  "openai_determineCategory content url openaiClient =
     (let urlLower = toLowerCase url
      in if includes_str urlLower ''youtube.com'' \<or> includes_str urlLower ''vimeo.com''
            \<or> includes_str urlLower ''dailymotion.com'' \<or> includes_str urlLower ''video''
         then (Inr ''Video'', [])
         else if includes_str urlLower ''arxiv.org'' \<or> includes_str urlLower ''research''
                 \<or> includes_str urlLower ''paper'' \<or> includes_str urlLower ''doi.org''
         then (Inr ''Research'', [])
         else let req = openai_category_request content url
              in (case openaiClient req of
                    Inl e \<Rightarrow> (Inr ''Article'', [req])
                  | Inr text \<Rightarrow>
                      (let category = trim text
                       in if category \<in> set valid_categories then (Inr category, [req])
                          else (Inr ''Article'', [req]))))"

definition openai_genericTerms :: "string list" where
  "openai_genericTerms =
     [''other'', ''miscellaneous'', ''general'', ''misc'', ''various'', ''article'',
      ''content'']"

definition openai_tags_request :: "string \<Rightarrow> string \<Rightarrow> request" where
  "openai_tags_request content url =
     \<lparr>model = ''gpt-4'', system = TagsPrompt,
      user_content = url_and_content url (substring0 content 1000),
      max_tokens = 100, temperature = 3 / 10\<rparr>"

definition openai_generateTags ::
  "parser \<Rightarrow> string \<Rightarrow> string \<Rightarrow> client \<Rightarrow> (error + string list) \<times> request list" where
  "openai_generateTags JSON_parse content url openaiClient =
     (let req = openai_tags_request content url
      in (case openaiClient req of
            Inl e \<Rightarrow> (Inr [], [req])
          | Inr tagContent \<Rightarrow> (Inr (parse_tags JSON_parse openai_genericTerms tagContent), [req])))"

definition openai_summary_request :: "string \<Rightarrow> request" where
  "openai_summary_request content =
     \<lparr>model = ''gpt-4'', system = SummaryPrompt,
      user_content = substring0 content 1000,
      max_tokens = 150, temperature = 3 / 10\<rparr>"

definition openai_generateSummary ::
  "string \<Rightarrow> client \<Rightarrow> (error + string) \<times> request list" where
  "openai_generateSummary content openaiClient =
     (let req = openai_summary_request content
      in (case openaiClient req of
            Inl e \<Rightarrow> (Inr summary_failed, [req])
          | Inr text \<Rightarrow>
              (let summary = trim text
               in (Inr (if summary = [] then ''No summary available.'' else summary), [req]))))"

text \<open>
  As in the Claude service, the three sub-operations are read from the exports object;
  here \<^verbatim>\<open>generateSummary\<close> takes the content and the client only.
\<close>

definition openai_analyzeContent_on ::
  "(string \<Rightarrow> client \<Rightarrow> (error + string) \<times> request list)
   \<Rightarrow> (string \<Rightarrow> string \<Rightarrow> client \<Rightarrow> (error + string list) \<times> request list)
   \<Rightarrow> (string \<Rightarrow> string \<Rightarrow> client \<Rightarrow> (error + string) \<times> request list)
   \<Rightarrow> (string \<Rightarrow> client) \<Rightarrow> string \<Rightarrow> string \<Rightarrow> string option \<Rightarrow> analysis \<times> request list" where
  "openai_analyzeContent_on this_generateSummary this_generateTags this_determineCategory
       OpenAIApi url content userApiKey =
     (case createOpenAIClient OpenAIApi userApiKey of
        Inl e \<Rightarrow> (\<lparr>summary = summary_failed, tags = [], category = ''Article''\<rparr>, [])
      | Inr openai \<Rightarrow>
          (let (summaryP, t1) = this_generateSummary content openai;
               (tagsP, t2) = this_generateTags content url openai;
               (categoryP, t3) = this_determineCategory content url openai;
               summaryResult = catch summaryP (\<lambda>error. summary_failed);
               tagsResult = catch tagsP (\<lambda>error. []);
               categoryResult = catch categoryP (\<lambda>error. ''Article'')
           in (\<lparr>summary = summaryResult, tags = tagsResult, category = categoryResult\<rparr>,
               t1 @ t2 @ t3)))"

definition openai_analyzeContent ::
  "(string \<Rightarrow> client) \<Rightarrow> parser \<Rightarrow> string \<Rightarrow> string \<Rightarrow> string option \<Rightarrow> analysis \<times> request list" where
  "openai_analyzeContent OpenAIApi JSON_parse url content userApiKey =
     openai_analyzeContent_on openai_generateSummary (openai_generateTags JSON_parse)
       openai_determineCategory OpenAIApi url content userApiKey"

section \<open>The dispatcher (services/ai)\<close>

text \<open>
  The fields of the user document the dispatcher reads. A field that is absent is
  \<open>None\<close>.
\<close>

record user =
  aiProvider :: "string option"
  openAiKey :: "string option"
  claudeKey :: "string option"

text \<open>The body of the \<^verbatim>\<open>try\<close> block: a thrown error, or the result of the chosen service.\<close>

definition analyzeContent_body ::
  "(string \<Rightarrow> client) \<Rightarrow> (string \<Rightarrow> client) \<Rightarrow> parser \<Rightarrow> string \<Rightarrow> string \<Rightarrow> user
     \<Rightarrow> error + analysis \<times> request list" where
  "analyzeContent_body OpenAIApi Anthropic JSON_parse url content u =
     (if \<not> truthy (aiProvider u) then Inl (Error ''AI provider not specified'')
      else if \<not> truthy (openAiKey u) \<and> \<not> truthy (claudeKey u)
      then Inl (Error ''No API key found. Please add an API key in your account settings.'')
      else if aiProvider u = Some ''openai''
      then (if \<not> truthy (openAiKey u)
            then Inl (Error ''OpenAI API key is required. Please add it in your account settings.'')
            else Inr (openai_analyzeContent OpenAIApi JSON_parse url content (openAiKey u)))
      else if aiProvider u = Some ''claude''
      then (if \<not> truthy (claudeKey u)
            then Inl (Error ''Claude API key is required. Please add it in your account settings.'')
            else Inr (claude_analyzeContent Anthropic JSON_parse url content (claudeKey u)))
      else Inl (Error ''Invalid AI provider specified''))"

definition analyzeContent ::
  "(string \<Rightarrow> client) \<Rightarrow> (string \<Rightarrow> client) \<Rightarrow> parser \<Rightarrow> string \<Rightarrow> string \<Rightarrow> user
     \<Rightarrow> analysis \<times> request list" where
  "analyzeContent OpenAIApi Anthropic JSON_parse url content u =
     (case analyzeContent_body OpenAIApi Anthropic JSON_parse url content u of
        Inl error \<Rightarrow>
          (\<lparr>summary = ''AI analysis failed: '' @ message error @ ''. Please try again later.'',
            tags = [], category = ''Article''\<rparr>, [])
      | Inr r \<Rightarrow> r)"

section \<open>Auxiliary notions for the proofs\<close>

text \<open>A string that \<^verbatim>\<open>toLowerCase\<close> leaves as it is.\<close>

definition lowered :: "string \<Rightarrow> bool" where
  "lowered s = (\<forall>c \<in> set s. toLowerCase_char c = c)"

section \<open>Facts about strings and normalisation\<close>

lemma toLowerCase_char_idem: "toLowerCase_char (toLowerCase_char c) = toLowerCase_char c"
  by (auto simp: toLowerCase_char_def Let_def)

lemma lowered_toLowerCase: "lowered (toLowerCase s)"
  by (simp add: lowered_def toLowerCase_def toLowerCase_char_idem)

lemma toLowerCase_lowered: "lowered s \<Longrightarrow> toLowerCase s = s"
  by (simp add: lowered_def toLowerCase_def map_idI)

lemma set_trim: "set (trim s) \<subseteq> set s"
proof -
  have "set (trim s) \<subseteq> set (dropWhile isWhiteSpace s)"
    unfolding trim_def
    using set_dropWhileD[of _ isWhiteSpace "rev (dropWhile isWhiteSpace s)"] by auto
  also have "\<dots> \<subseteq> set s" using set_dropWhileD by fastforce
  finally show ?thesis .
qed

lemma lowered_trim: "lowered s \<Longrightarrow> lowered (trim s)"
  using set_trim by (auto simp: lowered_def)

lemma set_replace: "set (replace s p r) \<subseteq> set s \<union> set r"
proof (induction s)
  case Nil
  then show ?case by auto
next
  case (Cons c cs)
  have "set (drop (length p) (c # cs)) \<subseteq> set (c # cs)" by (rule set_drop_subset)
  with Cons show ?case by auto
qed

lemma lowered_prefix_step: "lowered s \<Longrightarrow> lowered (snd e) \<Longrightarrow> lowered (prefix_step s e)"
  using set_replace[of s "fst e" "snd e"] by (auto simp: prefix_step_def lowered_def)

lemma lowered_plural_step: "lowered s \<Longrightarrow> lowered (snd e) \<Longrightarrow> lowered (plural_step s e)"
  by (auto simp: plural_step_def lowered_def slice_end_def Let_def dest: in_set_takeD)

lemma lowered_y: "lowered ''y''" "lowered []"
  by (simp_all add: lowered_def toLowerCase_char_def)

lemma lowered_normalizeTag: "lowered (normalizeTag t)"
proof -
  have l: "lowered (trim (toLowerCase t))" by (simp add: lowered_trim lowered_toLowerCase)
  show ?thesis
    unfolding normalizeTag_def Let_def prefixes_tbl_def plurals_def
    using l by (simp add: lowered_prefix_step lowered_plural_step lowered_y)
qed

lemma preserved_trim: "n \<in> set PRESERVED_TERMS \<Longrightarrow> trim n = n"
  unfolding PRESERVED_TERMS_def by (auto simp: trim_def isWhiteSpace_def)

lemma endsWith_s: "endsWith n (x @ ''s'') \<Longrightarrow> endsWith n ''s''"
  unfolding endsWith_def by (metis suffix_appendD)

text \<open>
  A lowered string on which no rule of \<^verbatim>\<open>normalizeTag\<close> fires is returned as it is.
\<close>

lemma normalizeTag_fixed:
  assumes "lowered n"
    and "n \<in> set PRESERVED_TERMS \<or>
         (trim n = n \<and> \<not> startsWith n ''the '' \<and> \<not> startsWith n ''a '' \<and> \<not> startsWith n ''an ''
          \<and> (endsWith n ''s'' \<longrightarrow> length n \<le> 2))"
  shows "normalizeTag n = n"
proof (cases "n \<in> set PRESERVED_TERMS")
  case True
  then have "n \<noteq> []" by (auto simp: PRESERVED_TERMS_def)
  with True assms(1) show ?thesis
    by (simp add: normalizeTag_def toLowerCase_lowered preserved_trim)
next
  case False
  with assms(2) have h: "trim n = n" "\<not> startsWith n ''the ''" "\<not> startsWith n ''a ''"
    "\<not> startsWith n ''an ''" "endsWith n ''s'' \<longrightarrow> length n \<le> 2" by auto
  have es: "endsWith n ''es'' \<Longrightarrow> endsWith n ''s''" using endsWith_s[of n "''e''"] by simp
  have ies: "endsWith n ''ies'' \<Longrightarrow> endsWith n ''s''" using endsWith_s[of n "''ie''"] by simp
  have p: "foldl prefix_step n prefixes_tbl = n"
    using h by (simp add: prefixes_tbl_def prefix_step_def)
  have s1: "plural_step n (''s'', '''') = n"
    using h(5) by (cases "endsWith n ''s''") (auto simp: plural_step_def slice_end_def Let_def)
  have s2: "plural_step n (''es'', '''') = n"
    using h(5) es by (cases "endsWith n ''es''") (simp_all add: plural_step_def)
  have s3: "plural_step n (''ies'', ''y'') = n"
    using h(5) ies by (cases "endsWith n ''ies''") (simp_all add: plural_step_def)
  have q: "foldl plural_step n plurals = n"
    by (simp add: plurals_def s1 s2 s3)
  show ?thesis
    using False assms(1) h(1) p q by (simp add: normalizeTag_def toLowerCase_lowered Let_def)
qed

section \<open>Facts about similar tags and tag processing\<close>

lemma set_set_add: "set (set_add s x) = insert x (set s)"
  by (auto simp: set_add_def)


text \<open>
  The loop of \<^verbatim>\<open>findBestMatch\<close> keeps its best index inside the ratings and rates
  the targets in order.
\<close>

lemma findBestMatch_loop_inv:
  "findBestMatch_loop s ts rs best = (rs', b) \<Longrightarrow>
   best < length rs \<or> (rs = [] \<and> best = 0 \<and> ts \<noteq> []) \<Longrightarrow>
   b < length rs' \<and> map target rs' = map target rs @ ts"
proof (induction ts arbitrary: rs best)
  case Nil
  then show ?case by simp
next
  case (Cons t ts)
  let ?rs = "rs @ [\<lparr>target = t, rating = compareTwoStrings s t\<rparr>]"
  let ?best = "if compareTwoStrings s t > rating (?rs ! best) then length rs else best"
  from Cons.prems(1) have run: "findBestMatch_loop s ts ?rs ?best = (rs', b)"
    by (simp add: Let_def)
  from Cons.prems(2) have "?best < length ?rs" by auto
  then have "b < length rs' \<and> map target rs' = map target ?rs @ ts"
    using Cons.IH[OF run] by blast
  then show ?case by simp
qed

lemma findBestMatch_target:
  assumes "findBestMatch s ts = Inr m"
  shows "target (bestMatch m) \<in> set ts"
proof -
  from assms have ne: "ts \<noteq> []" by (auto simp: findBestMatch_def split: if_splits)
  obtain rs b where run: "findBestMatch_loop s ts [] 0 = (rs, b)"
    by (cases "findBestMatch_loop s ts [] 0")
  from findBestMatch_loop_inv[OF run] ne have inv: "b < length rs" "map target rs = ts" by auto
  from assms ne run have "bestMatch m = rs ! b" by (auto simp: findBestMatch_def)
  then have "target (bestMatch m) = map target rs ! b" using inv(1) by simp
  with inv show ?thesis by (metis length_map nth_mem)
qed

lemma findSimilarTag_in_existing:
  assumes "findSimilarTag t E th = Inr (Some m)"
  shows "m \<in> set E"
proof (cases "truthy (find (\<lambda>tag. normalizeTag tag = normalizeTag t) E)")
  case True
  with assms have "find (\<lambda>tag. normalizeTag tag = normalizeTag t) E = Some m"
    by (simp add: findSimilarTag_def Let_def)
  then show ?thesis by (auto simp: find_Some_iff)
next
  case False
  with assms obtain ms where "findBestMatch (normalizeTag t) E = Inr ms" "m = target (bestMatch ms)"
    by (auto simp: findSimilarTag_def Let_def split: sum.splits if_splits)
  then show ?thesis using findBestMatch_target by blast
qed





lemma findSimilarTag_exact_unique:
  assumes "normalizeTag t \<noteq> []" "normalizeTag (normalizeTag t) = normalizeTag t" "t \<in> set E"
    "\<forall>e\<in>set E. normalizeTag e = normalizeTag t \<longrightarrow> e = t"
  shows "findSimilarTag (normalizeTag t) E th = Inr (Some t)"
proof -
  let ?P = "\<lambda>tag. normalizeTag tag = normalizeTag (normalizeTag t)"
  from assms(2,3) have "\<exists>x\<in>set E. ?P x" by auto
  then obtain e where e: "find ?P E = Some e" by (cases "find ?P E") (auto simp: find_None_iff)
  then have "e \<in> set E" "normalizeTag e = normalizeTag t" using assms(2) by (auto simp: find_Some_iff)
  with assms(4) have "e = t" by blast
  moreover from assms(1) have "t \<noteq> []" by (auto simp: normalizeTag_def)
  ultimately show ?thesis using e by (simp add: findSimilarTag_def Let_def truthy_def)
qed

lemma normalizeTag_Nil: "normalizeTag [] = []"
  by (simp add: normalizeTag_def)

lemma processTags_loop_lookup_identity:
  assumes "\<forall>t\<in>set T. normalizeTag t \<noteq> []
             \<and> findSimilarTag (normalizeTag t) E (85 / 100) = Inr (Some t)"
    and "distinct (acc @ T)"
  shows "processTags_loop T E acc = Inr (acc @ T)"
  using assms
proof (induction T arbitrary: acc)
  case Nil
  then show ?case by simp
next
  case (Cons t T)
  from Cons.prems(1) have t: "normalizeTag t \<noteq> []"
    and f: "findSimilarTag (normalizeTag t) E (85 / 100) = Inr (Some t)" by auto
  from t have ne: "t \<noteq> []" using normalizeTag_Nil by auto
  from Cons.prems(2) have add: "set_add acc t = acc @ [t]" by (simp add: set_add_def)
  from Cons.prems have "processTags_loop T E (acc @ [t]) = Inr ((acc @ [t]) @ T)"
    by (intro Cons.IH) auto
  with t f add ne show ?case by (simp add: Let_def truthy_def)
qed

lemma processTags_loop_bound:
  "processTags_loop N E acc = Inr r \<Longrightarrow> prefix acc r \<and> length r \<le> length acc + length N"
proof (induction N arbitrary: acc)
  case Nil
  then show ?case by simp
next
  case (Cons t N)
  show ?case
  proof (cases "normalizeTag t = []")
    case True
    with Cons.prems have "processTags_loop N E acc = Inr r" by simp
    from Cons.IH[OF this] show ?thesis by simp
  next
    case False
    with Cons.prems obtain x where run: "processTags_loop N E (set_add acc x) = Inr r"
      by (auto simp: Let_def split: sum.splits if_splits)
    have p: "prefix acc (set_add acc x)" and l: "length (set_add acc x) \<le> length acc + 1"
      by (simp_all add: set_add_def)
    from Cons.IH[OF run] p l show ?thesis
      by (auto intro: prefix_order.trans)
  qed
qed

lemma processTags_loop_identity_only:
  assumes "processTags_loop T E acc = Inr (acc @ T)"
  shows "distinct T \<and> set acc \<inter> set T = {}
         \<and> (\<forall>t\<in>set T. normalizeTag t \<noteq> []
               \<and> (\<exists>v. findSimilarTag (normalizeTag t) E (85 / 100) = Inr v
                      \<and> (if truthy v then the v else normalizeTag t) = t))"
  using assms
proof (induction T arbitrary: acc)
  case Nil
  then show ?case by simp
next
  case (Cons t T)
  have n: "normalizeTag t \<noteq> []"
  proof
    assume "normalizeTag t = []"
    with Cons.prems have "processTags_loop T E acc = Inr (acc @ t # T)" by simp
    from processTags_loop_bound[OF this] show False by simp
  qed
  with Cons.prems obtain v where v: "findSimilarTag (normalizeTag t) E (85 / 100) = Inr v"
    by (auto simp: Let_def split: sum.splits)
  let ?x = "if truthy v then the v else normalizeTag t"
  from Cons.prems n v have run: "processTags_loop T E (set_add acc ?x) = Inr (acc @ t # T)"
    by (cases "truthy v") (simp_all add: Let_def)
  have notin: "?x \<notin> set acc"
  proof
    assume "?x \<in> set acc"
    then have "set_add acc ?x = acc" by (simp add: set_add_def)
    with run have "processTags_loop T E acc = Inr (acc @ t # T)" by simp
    from processTags_loop_bound[OF this] show False by simp
  qed
  then have add: "set_add acc ?x = acc @ [?x]" by (simp add: set_add_def)
  from processTags_loop_bound[OF run] add have "prefix (acc @ [?x]) (acc @ t # T)" by simp
  then have x: "?x = t" by simp
  with run add have "processTags_loop T E (acc @ [t]) = Inr ((acc @ [t]) @ T)" by simp
  from Cons.IH[OF this] have ih: "distinct T" "set (acc @ [t]) \<inter> set T = {}"
    "\<forall>t\<in>set T. normalizeTag t \<noteq> []
        \<and> (\<exists>v. findSimilarTag (normalizeTag t) E (85 / 100) = Inr v
               \<and> (if truthy v then the v else normalizeTag t) = t)"
    by auto
  from notin x have "t \<notin> set acc" by simp
  with ih n v x show ?case by auto
qed

lemma findSimilarTag_truthy_on_member:
  assumes "t \<in> set E" "normalizeTag t = t" "t \<noteq> []"
  shows "\<exists>e. findSimilarTag t E th = Inr (Some e) \<and> e \<noteq> []"
proof -
  let ?P = "\<lambda>tag. normalizeTag tag = normalizeTag t"
  from assms(1) have "\<exists>x\<in>set E. ?P x" by auto
  then obtain e where e: "find ?P E = Some e" by (cases "find ?P E") (auto simp: find_None_iff)
  then have "normalizeTag e = t" using assms(2) by (auto simp: find_Some_iff)
  with assms(3) have "e \<noteq> []" using normalizeTag_Nil by auto
  with e show ?thesis by (simp add: findSimilarTag_def Let_def truthy_def)
qed

lemma processTags_identity_iff:
  assumes "set T \<subseteq> set E"
  shows "(processTags T E = Inr T) =
         (distinct T \<and> (\<forall>t\<in>set T. normalizeTag t \<noteq> []
                           \<and> findSimilarTag (normalizeTag t) E (85 / 100) = Inr (Some t)))"
proof
  assume "processTags T E = Inr T"
  then have "processTags_loop T E [] = Inr ([] @ T)" by (simp add: processTags_def)
  from processTags_loop_identity_only[OF this]
  have d: "distinct T"
    and c: "\<forall>t\<in>set T. normalizeTag t \<noteq> []
               \<and> (\<exists>v. findSimilarTag (normalizeTag t) E (85 / 100) = Inr v
                      \<and> (if truthy v then the v else normalizeTag t) = t)"
    by auto
  have "findSimilarTag (normalizeTag t) E (85 / 100) = Inr (Some t)" if t: "t \<in> set T" for t
  proof -
    from c t obtain v where n: "normalizeTag t \<noteq> []"
      and v: "findSimilarTag (normalizeTag t) E (85 / 100) = Inr v"
      and x: "(if truthy v then the v else normalizeTag t) = t" by blast
    show ?thesis
    proof (cases "truthy v")
      case True
      with x v show ?thesis by (auto simp: truthy_def split: option.splits)
    next
      case False
      with x have fx: "normalizeTag t = t" by simp
      with n have "t \<noteq> []" by simp
      from findSimilarTag_truthy_on_member[OF _ fx this, of E "85 / 100"] t assms
      obtain e where "findSimilarTag t E (85 / 100) = Inr (Some e)" "e \<noteq> []" by blast
      with v fx have "truthy v" by (simp add: truthy_def)
      with False show ?thesis by simp
    qed
  qed
  with d c show "distinct T \<and> (\<forall>t\<in>set T. normalizeTag t \<noteq> []
                           \<and> findSimilarTag (normalizeTag t) E (85 / 100) = Inr (Some t))"
    by blast
next
  assume "distinct T \<and> (\<forall>t\<in>set T. normalizeTag t \<noteq> []
                           \<and> findSimilarTag (normalizeTag t) E (85 / 100) = Inr (Some t))"
  then show "processTags T E = Inr T"
    using processTags_loop_lookup_identity[of T E "[]"] by (simp add: processTags_def)
qed

lemma processTags_loop_origin:
  "processTags_loop N E acc = Inr r \<Longrightarrow> x \<in> set r \<Longrightarrow>
   x \<in> set acc \<or> x \<in> set E \<or> (\<exists>t\<in>set N. x = normalizeTag t)"
proof (induction N arbitrary: acc)
  case Nil
  then show ?case by simp
next
  case (Cons t N)
  show ?case
  proof (cases "normalizeTag t = []")
    case True
    with Cons.prems have "processTags_loop N E acc = Inr r" by simp
    from Cons.IH[OF this Cons.prems(2)] show ?thesis by auto
  next
    case False
    with Cons.prems(1) obtain v where v: "findSimilarTag (normalizeTag t) E (85 / 100) = Inr v"
      by (auto simp: Let_def split: sum.splits)
    show ?thesis
    proof (cases "truthy v")
      case True
      then obtain m where m: "v = Some m" by (auto simp: truthy_def split: option.splits)
      with v have mE: "m \<in> set E" using findSimilarTag_in_existing by blast
      from Cons.prems(1) False v True m have "processTags_loop N E (set_add acc m) = Inr r"
        by (simp add: Let_def)
      from Cons.IH[OF this Cons.prems(2)] mE show ?thesis by (auto simp: set_set_add)
    next
      case nt: False
      from Cons.prems(1) False v nt
      have "processTags_loop N E (set_add acc (normalizeTag t)) = Inr r"
        by (simp add: Let_def)
      from Cons.IH[OF this Cons.prems(2)] show ?thesis by (auto simp: set_set_add)
    qed
  qed
qed

lemma map_tags_lowered: "map_tags xs = Inr ts \<Longrightarrow> t \<in> set ts \<Longrightarrow> lowered t"
proof (induction xs arbitrary: ts rule: map_tags.induct)
  case 1
  then show ?case by simp
next
  case (2 tag xs)
  then show ?case
    by (auto simp: lowered_trim lowered_toLowerCase split: sum.splits)
qed simp_all

lemma clean_tags_not_generic:
  assumes "clean_tags G v = Inr ts" "t \<in> set ts"
  shows "t \<notin> set G"
proof (cases v)
  case (JArray xs)
  with assms(1) obtain ms where m: "map_tags xs = Inr ms"
    and ts: "ts = filter (\<lambda>tag. tag \<noteq> [] \<and> length tag > 0 \<and> toLowerCase tag \<notin> set G
                                \<and> length tag \<le> 50) ms"
    by (cases "map_tags xs") (auto simp: clean_tags_def)
  from ts assms(2) have t: "t \<in> set ms" and g: "toLowerCase t \<notin> set G" by auto
  from map_tags_lowered[OF m t] have "toLowerCase t = t" by (rule toLowerCase_lowered)
  with g show ?thesis by simp
qed (use assms(1) in \<open>simp_all add: clean_tags_def\<close>)

lemma parse_tags_not_generic:
  assumes "t \<in> set (parse_tags P G text)"
  shows "t \<notin> set G"
proof (cases "P text")
  case (Inl e)
  with assms show ?thesis by (simp add: parse_tags_def)
next
  case (Inr v)
  show ?thesis
  proof (cases "clean_tags G v")
    case (Inl e)
    with Inr assms show ?thesis by (simp add: parse_tags_def)
  next
    case r: (Inr ts)
    with Inr assms have "t \<in> set ts" by (simp add: parse_tags_def)
    with r show ?thesis by (rule clean_tags_not_generic)
  qed
qed

lemma claude_tags_not_generic:
  "t \<in> set (tags (fst (claude_analyzeContent A P url content key))) \<Longrightarrow> t \<notin> set claude_genericTerms"
  by (auto simp: claude_analyzeContent_def claude_analyzeContent_on_def claude_generateTags_def
      catch_def Let_def
      split: sum.splits prod.splits dest: parse_tags_not_generic)

lemma openai_tags_not_generic:
  "t \<in> set (tags (fst (openai_analyzeContent A P url content key))) \<Longrightarrow> t \<notin> set openai_genericTerms"
  by (auto simp: openai_analyzeContent_def openai_analyzeContent_on_def openai_generateTags_def
      catch_def Let_def
      split: sum.splits prod.splits dest: parse_tags_not_generic)

lemma generic_subset: "set openai_genericTerms \<subseteq> set claude_genericTerms"
  by (simp add: openai_genericTerms_def claude_genericTerms_def)

lemma analyzeContent_tags_not_generic:
  assumes "t \<in> set (tags (fst (analyzeContent Op A P url content u)))"
  shows "t \<notin> set openai_genericTerms"
proof (cases "analyzeContent_body Op A P url content u")
  case (Inl e)
  with assms show ?thesis by (simp add: analyzeContent_def)
next
  case (Inr r)
  then consider "r = openai_analyzeContent Op P url content (openAiKey u)"
    | "r = claude_analyzeContent A P url content (claudeKey u)"
    by (auto simp: analyzeContent_body_def split: if_splits)
  then show ?thesis
  proof cases
    case 1
    with assms Inr show ?thesis using openai_tags_not_generic by (simp add: analyzeContent_def)
  next
    case 2
    with assms Inr have "t \<notin> set claude_genericTerms"
      using claude_tags_not_generic by (simp add: analyzeContent_def)
    with generic_subset show ?thesis by blast
  qed
qed

section \<open>Facts about the services\<close>

lemma includes_str_toLowerCase:
  "includes_str url p \<Longrightarrow> lowered p \<Longrightarrow> includes_str (toLowerCase url) p"
proof (induction url)
  case Nil
  then show ?case by (simp add: toLowerCase_def)
next
  case (Cons c cs)
  from Cons.prems(2) have p: "map toLowerCase_char p = p"
    using toLowerCase_lowered by (simp add: toLowerCase_def)
  show ?case
  proof (cases "prefix p (c # cs)")
    case True
    then have "prefix (map toLowerCase_char p) (map toLowerCase_char (c # cs))"
      by (rule map_mono_prefix)
    with p show ?thesis by (simp add: toLowerCase_def)
  next
    case False
    with Cons have "includes_str (toLowerCase cs) p" by simp
    then show ?thesis by (simp add: toLowerCase_def)
  qed
qed

lemma lowered_patterns: "lowered ''video''" "lowered ''research''" "lowered ''paper''"
  by (simp_all add: lowered_def toLowerCase_char_def)

lemma truthy_simps: "truthy None = False" "truthy (Some s) = (s \<noteq> [])"
  by (simp_all add: truthy_def)

lemma claude_analyzeContent_on_settled:
  assumes "truthy key"
  shows "claude_analyzeContent_on gs gt gc A url content key =
     (\<lparr>summary = (case fst (gs content url (A (the key))) of Inl e \<Rightarrow> summary_failed | Inr s \<Rightarrow> s),
       tags = (case fst (gt content url (A (the key))) of Inl e \<Rightarrow> [] | Inr ts \<Rightarrow> ts),
       category = (case fst (gc content url (A (the key))) of Inl e \<Rightarrow> ''Article'' | Inr c \<Rightarrow> c)\<rparr>,
      snd (gs content url (A (the key))) @ snd (gt content url (A (the key)))
      @ snd (gc content url (A (the key))))"
  using assms
  by (simp add: claude_analyzeContent_on_def createClaudeClient_def catch_def Let_def split: prod.splits sum.splits)

lemma claude_generateSummary_value:
  "claude_generateSummary content url c =
     (Inr (case c (claude_summary_request content url) of
             Inl e \<Rightarrow> summary_failed
           | Inr text \<Rightarrow> if trim text = [] then ''No summary available.'' else trim text),
      [claude_summary_request content url])"
  by (simp add: claude_generateSummary_def Let_def split: sum.splits)

lemma claude_generateTags_value:
  "claude_generateTags P content url c =
     (Inr (case c (claude_tags_request content url) of
             Inl e \<Rightarrow> []
           | Inr text \<Rightarrow>
               (case P text of
                  Inl e \<Rightarrow> []
                | Inr v \<Rightarrow> (case clean_tags claude_genericTerms v of Inl e \<Rightarrow> [] | Inr ts \<Rightarrow> ts))),
      [claude_tags_request content url])"
  by (simp add: claude_generateTags_def parse_tags_def Let_def split: sum.splits)

lemma claude_determineCategory_value:
  "claude_determineCategory content url c =
     (if includes_str (toLowerCase url) ''youtube.com'' \<or> includes_str (toLowerCase url) ''youtu.be''
            \<or> includes_str (toLowerCase url) ''vimeo.com''
            \<or> includes_str (toLowerCase url) ''dailymotion.com''
      then (Inr ''Video'', [])
      else if includes_str (toLowerCase url) ''arxiv.org'' \<or> includes_str (toLowerCase url) ''research''
              \<or> includes_str (toLowerCase url) ''paper'' \<or> includes_str (toLowerCase url) ''doi.org''
      then (Inr ''Research'', [])
      else (Inr (case c (claude_category_request content url) of
                   Inl e \<Rightarrow> ''Article''
                 | Inr text \<Rightarrow> if trim text \<in> set valid_categories then trim text else ''Article''),
            [claude_category_request content url]))"
  by (simp add: claude_determineCategory_def Let_def split: sum.splits)

lemma claude_analyzeContent_value:
  assumes "truthy key"
  shows "claude_analyzeContent A P url content key =
     (\<lparr>summary = (case A (the key) (claude_summary_request content url) of
                    Inl e \<Rightarrow> summary_failed
                  | Inr text \<Rightarrow> if trim text = [] then ''No summary available.'' else trim text),
       tags = (case A (the key) (claude_tags_request content url) of
                 Inl e \<Rightarrow> []
               | Inr text \<Rightarrow>
                   (case P text of
                      Inl e \<Rightarrow> []
                    | Inr v \<Rightarrow> (case clean_tags claude_genericTerms v of Inl e \<Rightarrow> [] | Inr ts \<Rightarrow> ts))),
       category =
         (if includes_str (toLowerCase url) ''youtube.com'' \<or> includes_str (toLowerCase url) ''youtu.be''
            \<or> includes_str (toLowerCase url) ''vimeo.com''
            \<or> includes_str (toLowerCase url) ''dailymotion.com''
          then ''Video''
          else if includes_str (toLowerCase url) ''arxiv.org'' \<or> includes_str (toLowerCase url) ''research''
                  \<or> includes_str (toLowerCase url) ''paper'' \<or> includes_str (toLowerCase url) ''doi.org''
          then ''Research''
          else (case A (the key) (claude_category_request content url) of
                  Inl e \<Rightarrow> ''Article''
                | Inr text \<Rightarrow> if trim text \<in> set valid_categories then trim text else ''Article''))\<rparr>,
      claude_summary_request content url # claude_tags_request content url
      # (if includes_str (toLowerCase url) ''youtube.com'' \<or> includes_str (toLowerCase url) ''youtu.be''
            \<or> includes_str (toLowerCase url) ''vimeo.com''
            \<or> includes_str (toLowerCase url) ''dailymotion.com''
           \<or> includes_str (toLowerCase url) ''arxiv.org'' \<or> includes_str (toLowerCase url) ''research''
           \<or> includes_str (toLowerCase url) ''paper'' \<or> includes_str (toLowerCase url) ''doi.org''
         then [] else [claude_category_request content url]))"
  unfolding claude_analyzeContent_def claude_analyzeContent_on_settled[OF assms]
    claude_generateSummary_value claude_generateTags_value claude_determineCategory_value
  by simp

lemma openai_analyzeContent_on_settled:
  assumes "truthy key"
  shows "openai_analyzeContent_on gs gt gc A url content key =
     (\<lparr>summary = (case fst (gs content (A (the key))) of Inl e \<Rightarrow> summary_failed | Inr s \<Rightarrow> s),
       tags = (case fst (gt content url (A (the key))) of Inl e \<Rightarrow> [] | Inr ts \<Rightarrow> ts),
       category = (case fst (gc content url (A (the key))) of Inl e \<Rightarrow> ''Article'' | Inr c \<Rightarrow> c)\<rparr>,
      snd (gs content (A (the key))) @ snd (gt content url (A (the key)))
      @ snd (gc content url (A (the key))))"
  using assms
  by (simp add: openai_analyzeContent_on_def createOpenAIClient_def catch_def Let_def split: prod.splits sum.splits)

lemma openai_generateSummary_value:
  "openai_generateSummary content c =
     (Inr (case c (openai_summary_request content) of
             Inl e \<Rightarrow> summary_failed
           | Inr text \<Rightarrow> if trim text = [] then ''No summary available.'' else trim text),
      [openai_summary_request content])"
  by (simp add: openai_generateSummary_def Let_def split: sum.splits)

lemma openai_generateTags_value:
  "openai_generateTags P content url c =
     (Inr (case c (openai_tags_request content url) of
             Inl e \<Rightarrow> []
           | Inr text \<Rightarrow>
               (case P text of
                  Inl e \<Rightarrow> []
                | Inr v \<Rightarrow> (case clean_tags openai_genericTerms v of Inl e \<Rightarrow> [] | Inr ts \<Rightarrow> ts))),
      [openai_tags_request content url])"
  by (simp add: openai_generateTags_def parse_tags_def Let_def split: sum.splits)

lemma openai_determineCategory_value:
  "openai_determineCategory content url c =
     (if includes_str (toLowerCase url) ''youtube.com'' \<or> includes_str (toLowerCase url) ''vimeo.com''
            \<or> includes_str (toLowerCase url) ''dailymotion.com''
            \<or> includes_str (toLowerCase url) ''video''
      then (Inr ''Video'', [])
      else if includes_str (toLowerCase url) ''arxiv.org'' \<or> includes_str (toLowerCase url) ''research''
              \<or> includes_str (toLowerCase url) ''paper'' \<or> includes_str (toLowerCase url) ''doi.org''
      then (Inr ''Research'', [])
      else (Inr (case c (openai_category_request content url) of
                   Inl e \<Rightarrow> ''Article''
                 | Inr text \<Rightarrow> if trim text \<in> set valid_categories then trim text else ''Article''),
            [openai_category_request content url]))"
  by (simp add: openai_determineCategory_def Let_def split: sum.splits)

lemma openai_analyzeContent_value:
  assumes "truthy key"
  shows "openai_analyzeContent A P url content key =
     (\<lparr>summary = (case A (the key) (openai_summary_request content) of
                    Inl e \<Rightarrow> summary_failed
                  | Inr text \<Rightarrow> if trim text = [] then ''No summary available.'' else trim text),
       tags = (case A (the key) (openai_tags_request content url) of
                 Inl e \<Rightarrow> []
               | Inr text \<Rightarrow>
                   (case P text of
                      Inl e \<Rightarrow> []
                    | Inr v \<Rightarrow> (case clean_tags openai_genericTerms v of Inl e \<Rightarrow> [] | Inr ts \<Rightarrow> ts))),
       category =
         (if includes_str (toLowerCase url) ''youtube.com'' \<or> includes_str (toLowerCase url) ''vimeo.com''
            \<or> includes_str (toLowerCase url) ''dailymotion.com''
            \<or> includes_str (toLowerCase url) ''video''
          then ''Video''
          else if includes_str (toLowerCase url) ''arxiv.org'' \<or> includes_str (toLowerCase url) ''research''
                  \<or> includes_str (toLowerCase url) ''paper'' \<or> includes_str (toLowerCase url) ''doi.org''
          then ''Research''
          else (case A (the key) (openai_category_request content url) of
                  Inl e \<Rightarrow> ''Article''
                | Inr text \<Rightarrow> if trim text \<in> set valid_categories then trim text else ''Article''))\<rparr>,
      openai_summary_request content # openai_tags_request content url
      # (if includes_str (toLowerCase url) ''youtube.com'' \<or> includes_str (toLowerCase url) ''vimeo.com''
            \<or> includes_str (toLowerCase url) ''dailymotion.com''
            \<or> includes_str (toLowerCase url) ''video''
           \<or> includes_str (toLowerCase url) ''arxiv.org'' \<or> includes_str (toLowerCase url) ''research''
           \<or> includes_str (toLowerCase url) ''paper'' \<or> includes_str (toLowerCase url) ''doi.org''
         then [] else [openai_category_request content url]))"
  unfolding openai_analyzeContent_def openai_analyzeContent_on_settled[OF assms]
    openai_generateSummary_value openai_generateTags_value openai_determineCategory_value
  by simp

section \<open>Claims about tag normalisation\<close>

text \<open>
  C1. The claim: \<^verbatim>\<open>findSimilarTag(candidate, [], threshold)\<close> returns no match and does
  not raise. The code has no guard for the empty list: \<^verbatim>\<open>find\<close> yields nothing, and
  the call of \<^verbatim>\<open>findBestMatch\<close> with an empty list of targets throws. So for every
  candidate and threshold the call raises the package's error, and so does
  \<^verbatim>\<open>processTags\<close> on a user's first tags.
\<close>

theorem findSimilarTag_empty_raises:
  "findSimilarTag candidate [] threshold =
     Inl (Error ''Bad arguments: First argument should be a string, second should be an array of strings'')
   \<and> processTags [''ai''] [] =
     Inl (Error ''Bad arguments: First argument should be a string, second should be an array of strings'')"
proof
  show "findSimilarTag candidate [] threshold =
     Inl (Error ''Bad arguments: First argument should be a string, second should be an array of strings'')"
    by (simp add: findSimilarTag_def findBestMatch_def truthy_def)
  show "processTags [''ai''] [] =
     Inl (Error ''Bad arguments: First argument should be a string, second should be an array of strings'')"
    by code_simp
qed

text \<open>
  C5, as stated: \<^verbatim>\<open>normalizeTag\<close> is idempotent. It is not: each call removes one
  plural suffix, so \<^verbatim>\<open>boss\<close> becomes \<^verbatim>\<open>bos\<close> and then \<^verbatim>\<open>bo\<close>.
\<close>

theorem normalizeTag_not_idempotent:
  "normalizeTag (normalizeTag ''boss'') \<noteq> normalizeTag ''boss''"
  by code_simp

text \<open>
  C5, amended: normalising a second time changes nothing whenever the first result is
  a preserved term, or has no white space at either end, starts with none of the
  three prefixes and does not end in \<^verbatim>\<open>s\<close> unless it has at most two characters.
\<close>

theorem normalizeTag_idempotent_when_settled:
  "normalizeTag t \<in> set PRESERVED_TERMS \<or>
     (trim (normalizeTag t) = normalizeTag t
      \<and> \<not> startsWith (normalizeTag t) ''the '' \<and> \<not> startsWith (normalizeTag t) ''a ''
      \<and> \<not> startsWith (normalizeTag t) ''an ''
      \<and> (endsWith (normalizeTag t) ''s'' \<longrightarrow> length (normalizeTag t) \<le> 2))
   \<Longrightarrow> normalizeTag (normalizeTag t) = normalizeTag t"
  by (rule normalizeTag_fixed[OF lowered_normalizeTag])

theorem normalizeTag_idempotent_when_settled_witness:
  "normalizeTag (normalizeTag ''The Images'') = normalizeTag ''The Images''
   \<and> normalizeTag ''The Images'' = ''image''"
proof -
  have n: "normalizeTag ''The Images'' = ''image''" by code_simp
  have "normalizeTag (normalizeTag ''The Images'') = normalizeTag ''The Images''"
    by (rule normalizeTag_idempotent_when_settled)
      (simp add: n PRESERVED_TERMS_def trim_def isWhiteSpace_def startsWith_def endsWith_def
        suffix_to_prefix)
  with n show ?thesis by simp
qed

text \<open>
  C6. The claim and the comments of \<^verbatim>\<open>COMMON_VARIATIONS\<close> say that
  \<^verbatim>\<open>technologies\<close> becomes \<^verbatim>\<open>technology\<close> and \<^verbatim>\<open>classes\<close> becomes \<^verbatim>\<open>class\<close>. The
  loop tries the suffix \<^verbatim>\<open>s\<close> first, so only the final \<^verbatim>\<open>s\<close> goes and the rules
  for \<^verbatim>\<open>es\<close> and \<^verbatim>\<open>ies\<close> find nothing left to match.
\<close>

theorem normalizeTag_plural_examples:
  "normalizeTag ''technologies'' = ''technologie'' \<and> normalizeTag ''classes'' = ''classe''"
  by code_simp

section \<open>Claims about tag processing\<close>




text \<open>
  C7, as stated: processing the output \<open>T\<close> of \<^verbatim>\<open>processTags\<close> again, against a
  vocabulary that includes \<open>T\<close>, returns \<open>T\<close>. The output of the new tags
  \<^verbatim>\<open>pass\<close> and \<^verbatim>\<open>pa\<close> is \<^verbatim>\<open>pas\<close> and \<^verbatim>\<open>pa\<close>; processed against itself, \<^verbatim>\<open>pas\<close> is
  normalised once more to \<^verbatim>\<open>pa\<close>, both tags match the vocabulary's \<^verbatim>\<open>pas\<close>, and
  one tag is left.
\<close>

theorem processTags_not_identity_on_own_output:
  "processTags [''pass'', ''pa''] [''web''] = Inr [''pas'', ''pa'']
   \<and> processTags [''pas'', ''pa''] [''pas'', ''pa''] = Inr [''pas'']"
  by code_simp

text \<open>
  C7, amended: for a list \<open>T\<close> and a vocabulary \<open>E\<close> that includes all of \<open>T\<close>,
  \<^verbatim>\<open>processTags(T, E)\<close> returns exactly \<open>T\<close> if and only if \<open>T\<close> has no duplicates
  and, for every tag of \<open>T\<close>, the normal form is non-empty and the similarity lookup
  of that normal form in \<open>E\<close> returns the tag itself. In particular it returns \<open>T\<close>
  for a duplicate-free \<open>T\<close> of tags whose normal form is non-empty and is itself left
  unchanged by \<^verbatim>\<open>normalizeTag\<close>, when no other tag of \<open>E\<close> has the normal form of a tag
  of \<open>T\<close>. The tags themselves need not be normal forms: a vocabulary spelling such
  as \<^verbatim>\<open>Images\<close> is returned as it is.
\<close>

theorem processTags_identity_on_settled_tags:
  "(set T \<subseteq> set E \<longrightarrow>
      (processTags T E = Inr T) =
      (distinct T \<and> (\<forall>t\<in>set T. normalizeTag t \<noteq> []
                        \<and> findSimilarTag (normalizeTag t) E (85 / 100) = Inr (Some t))))
   \<and> (distinct T
       \<and> (\<forall>t\<in>set T. normalizeTag t \<noteq> [] \<and> normalizeTag (normalizeTag t) = normalizeTag t)
       \<and> set T \<subseteq> set E
       \<and> (\<forall>e\<in>set E. \<forall>t\<in>set T. normalizeTag e = normalizeTag t \<longrightarrow> e = t)
      \<longrightarrow> processTags T E = Inr T)"
proof (intro conjI impI)
  assume "set T \<subseteq> set E"
  then show "(processTags T E = Inr T) =
      (distinct T \<and> (\<forall>t\<in>set T. normalizeTag t \<noteq> []
                        \<and> findSimilarTag (normalizeTag t) E (85 / 100) = Inr (Some t)))"
    by (rule processTags_identity_iff)
next
  assume h: "distinct T
       \<and> (\<forall>t\<in>set T. normalizeTag t \<noteq> [] \<and> normalizeTag (normalizeTag t) = normalizeTag t)
       \<and> set T \<subseteq> set E
       \<and> (\<forall>e\<in>set E. \<forall>t\<in>set T. normalizeTag e = normalizeTag t \<longrightarrow> e = t)"
  then have "\<forall>t\<in>set T. normalizeTag t \<noteq> []
                \<and> findSimilarTag (normalizeTag t) E (85 / 100) = Inr (Some t)"
    using findSimilarTag_exact_unique[of _ E "85 / 100"] by (meson subsetD)
  with h show "processTags T E = Inr T"
    using processTags_identity_iff[of T E] by blast
qed

theorem processTags_identity_on_settled_tags_witness:
  "distinct [''Images'', ''bos'', ''python'']
   \<and> set [''Images'', ''bos'', ''python''] \<subseteq> set [''web'', ''Images'', ''python'', ''bos'']
   \<and> processTags [''Images'', ''bos'', ''python''] [''web'', ''Images'', ''python'', ''bos'']
       = Inr [''Images'', ''bos'', ''python'']
   \<and> findSimilarTag (normalizeTag ''Images'') [''web'', ''Images'', ''python'', ''bos''] (85 / 100)
       = Inr (Some ''Images'')"
proof -
  let ?T = "[''Images'', ''bos'', ''python'']"
  let ?E = "[''web'', ''Images'', ''python'', ''bos'']"
  have d: "distinct ?T" by simp
  have n: "\<forall>t\<in>set ?T. normalizeTag t \<noteq> [] \<and> normalizeTag (normalizeTag t) = normalizeTag t"
    by code_simp
  have s: "set ?T \<subseteq> set ?E" by simp
  have u: "\<forall>e\<in>set ?E. \<forall>t\<in>set ?T. normalizeTag e = normalizeTag t \<longrightarrow> e = t" by code_simp
  note inst = processTags_identity_on_settled_tags[of ?T ?E]
  from inst d n s u have p: "processTags ?T ?E = Inr ?T" by blast
  with inst s have "\<forall>t\<in>set ?T. normalizeTag t \<noteq> []
      \<and> findSimilarTag (normalizeTag t) ?E (85 / 100) = Inr (Some t)" by blast
  then have f: "findSimilarTag (normalizeTag ''Images'') ?E (85 / 100) = Inr (Some ''Images'')"
    by simp
  from d s p f show ?thesis by blast
qed


section \<open>Claims about the tag pipeline\<close>

text \<open>
  C8, as stated: after \<^verbatim>\<open>generateTags\<close> and \<^verbatim>\<open>processTags\<close>, against a vocabulary
  without generic terms, no tag is a generic term. The filter of \<^verbatim>\<open>generateTags\<close>
  runs before normalisation: the provider's tag \<^verbatim>\<open>articles\<close> passes it, and
  \<^verbatim>\<open>processTags\<close> normalises it to the generic term \<^verbatim>\<open>article\<close>.
\<close>

theorem pipeline_yields_generic_term:
  \<open>processTags
     (tags (fst (analyzeContent (\<lambda>k r. Inl TypeError) (\<lambda>k r. Inr ''["articles"]'')
        (\<lambda>s. if s = ''["articles"]'' then Inr (JArray [JString ''articles'']) else Inl SyntaxError)
        ''https://example.com/post'' ''text''
        \<lparr>aiProvider = Some ''claude'', openAiKey = None, claudeKey = Some ''key''\<rparr>)))
     [''python'']
   = Inr [''article'']
   \<and> ''article'' \<in> set claude_genericTerms \<and> ''python'' \<notin> set claude_genericTerms\<close>
  by code_simp

text \<open>
  C8, amended: no tag that the analysis returns (the provider's tags as filtered by
  \<^verbatim>\<open>generateTags\<close>) is a generic term: none of the seven terms both services
  list, and for the Claude service none of its nine. Every tag that \<^verbatim>\<open>processTags\<close>
  then returns is a tag of the existing vocabulary or the normal form of one of
  those filtered tags; the normal form itself is not checked against the list.
\<close>

theorem pipeline_tags_origin:
  "(\<forall>t\<in>set (tags (fst (analyzeContent Op A P url content u))). t \<notin> set openai_genericTerms)
   \<and> (\<forall>t\<in>set (tags (fst (claude_analyzeContent A P url content key))). t \<notin> set claude_genericTerms)
   \<and> (\<forall>r x. processTags (tags (fst (analyzeContent Op A P url content u))) E = Inr r \<and> x \<in> set r
        \<longrightarrow> x \<in> set E \<or> (\<exists>t\<in>set (tags (fst (analyzeContent Op A P url content u))). x = normalizeTag t))"
  using analyzeContent_tags_not_generic claude_tags_not_generic
    processTags_loop_origin[of "tags (fst (analyzeContent Op A P url content u))" E "[]"]
  unfolding processTags_def by auto

theorem pipeline_tags_origin_witness:
  "tags (fst (analyzeContent (\<lambda>k r. Inl TypeError) (\<lambda>k r. Inr ''tags'')
        (\<lambda>s. Inr (JArray [JString '' Rust'', JString ''Article'', JString ''images'']))
        ''https://example.com/post'' ''text''
        \<lparr>aiProvider = Some ''claude'', openAiKey = None, claudeKey = Some ''key''\<rparr>))
     = [''rust'', ''images'']
   \<and> tags (fst (claude_analyzeContent (\<lambda>k r. Inr ''tags'')
        (\<lambda>s. Inr (JArray [JString '' Rust'', JString ''Article'', JString ''images'']))
        ''https://example.com/post'' ''text'' (Some ''key'')))
     = [''rust'', ''images'']
   \<and> processTags [''rust'', ''images''] [''image''] = Inr [''rust'', ''image'']
   \<and> ''rust'' \<notin> set openai_genericTerms \<and> ''images'' \<notin> set claude_genericTerms
   \<and> (''rust'' \<in> set [''image''] \<or> (\<exists>t\<in>set [''rust'', ''images'']. ''rust'' = normalizeTag t))"
proof -
  let ?A = "\<lambda>(k::string) (r::request). (Inr ''tags'' :: error + string)"
  let ?Op = "\<lambda>(k::string) (r::request). (Inl TypeError :: error + string)"
  let ?P = "\<lambda>s::string. (Inr (JArray [JString '' Rust'', JString ''Article'', JString ''images''])
              :: error + json)"
  let ?u = "\<lparr>aiProvider = Some ''claude'', openAiKey = None, claudeKey = Some ''key''\<rparr>"
  have a: "tags (fst (analyzeContent ?Op ?A ?P ''https://example.com/post'' ''text'' ?u))
             = [''rust'', ''images'']"
    by code_simp
  have c: "tags (fst (claude_analyzeContent ?A ?P ''https://example.com/post'' ''text'' (Some ''key'')))
             = [''rust'', ''images'']"
    by code_simp
  have p: "processTags [''rust'', ''images''] [''image''] = Inr [''rust'', ''image'']"
    by code_simp
  note inst = pipeline_tags_origin[of ?Op ?A ?P "''https://example.com/post''" "''text''" ?u
      "Some ''key''" "[''image'']"]
  from inst a have 1: "''rust'' \<notin> set openai_genericTerms" by simp
  from inst c have 2: "''images'' \<notin> set claude_genericTerms" by simp
  from inst a p have 3:
    "''rust'' \<in> set [''image''] \<or> (\<exists>t\<in>set [''rust'', ''images'']. ''rust'' = normalizeTag t)"
    by (metis list.set_intros(1))
  from a c p 1 2 3 show ?thesis by blast
qed

section \<open>Claims about the dispatcher and the services\<close>

text \<open>
  C2. When the selected provider has no credential, or the selection is neither
  \<^verbatim>\<open>openai\<close> nor \<^verbatim>\<open>claude\<close> (absent and empty included), \<^verbatim>\<open>analyzeContent\<close> returns
  the defaulted object: a summary that starts with \<^verbatim>\<open>AI analysis failed: \<close>, no tags
  and the category \<^verbatim>\<open>Article\<close>. It sends no request to any provider. The function
  has no error result at all: its \<^verbatim>\<open>try\<close> block spans the whole body.
\<close>

theorem analyzeContent_defaults_without_credential:
  "(aiProvider u = Some ''openai'' \<and> \<not> truthy (openAiKey u))
   \<or> (aiProvider u = Some ''claude'' \<and> \<not> truthy (claudeKey u))
   \<or> aiProvider u \<notin> {Some ''openai'', Some ''claude''}
   \<Longrightarrow> \<exists>msg. analyzeContent Op A P url content u =
         (\<lparr>summary = ''AI analysis failed: '' @ msg @ ''. Please try again later.'',
           tags = [], category = ''Article''\<rparr>, [])"
proof -
  assume h: "(aiProvider u = Some ''openai'' \<and> \<not> truthy (openAiKey u))
   \<or> (aiProvider u = Some ''claude'' \<and> \<not> truthy (claudeKey u))
   \<or> aiProvider u \<notin> {Some ''openai'', Some ''claude''}"
  have "\<exists>e. analyzeContent_body Op A P url content u = Inl e"
    unfolding analyzeContent_body_def using h by (auto simp: truthy_simps)
  then obtain e where "analyzeContent_body Op A P url content u = Inl e" by blast
  then show ?thesis by (auto simp: analyzeContent_def)
qed

theorem analyzeContent_defaults_without_credential_witness:
  "(Some ''openai'' = Some ''openai'' \<and> \<not> truthy None)
   \<and> (\<exists>msg. analyzeContent (\<lambda>k r. Inr ''x'') (\<lambda>k r. Inr ''x'') (\<lambda>s. Inl SyntaxError)
          ''https://example.com'' ''text''
          \<lparr>aiProvider = Some ''openai'', openAiKey = None, claudeKey = Some ''key''\<rparr> =
         (\<lparr>summary = ''AI analysis failed: '' @ msg @ ''. Please try again later.'',
           tags = [], category = ''Article''\<rparr>, []))
   \<and> analyzeContent (\<lambda>k r. Inr ''x'') (\<lambda>k r. Inr ''x'') (\<lambda>s. Inl SyntaxError)
          ''https://example.com'' ''text''
          \<lparr>aiProvider = Some ''openai'', openAiKey = None, claudeKey = Some ''key''\<rparr> =
         (\<lparr>summary = ''AI analysis failed: OpenAI API key is required. Please add it in your account settings.. Please try again later.'',
           tags = [], category = ''Article''\<rparr>, [])"
proof -
  let ?u = "\<lparr>aiProvider = Some ''openai'', openAiKey = None, claudeKey = Some ''key''\<rparr>"
  have h: "(aiProvider ?u = Some ''openai'' \<and> \<not> truthy (openAiKey ?u))
     \<or> (aiProvider ?u = Some ''claude'' \<and> \<not> truthy (claudeKey ?u))
     \<or> aiProvider ?u \<notin> {Some ''openai'', Some ''claude''}"
    by (simp add: truthy_def)
  have ex: "\<exists>msg. analyzeContent (\<lambda>k r. Inr ''x'') (\<lambda>k r. Inr ''x'') (\<lambda>s. Inl SyntaxError)
          ''https://example.com'' ''text'' ?u =
         (\<lparr>summary = ''AI analysis failed: '' @ msg @ ''. Please try again later.'',
           tags = [], category = ''Article''\<rparr>, [])"
    by (rule analyzeContent_defaults_without_credential[OF h])
  have c: "analyzeContent (\<lambda>k r. Inr ''x'') (\<lambda>k r. Inr ''x'') (\<lambda>s. Inl SyntaxError)
          ''https://example.com'' ''text'' ?u =
         (\<lparr>summary = ''AI analysis failed: OpenAI API key is required. Please add it in your account settings.. Please try again later.'',
           tags = [], category = ''Article''\<rparr>, [])"
    by code_simp
  from ex c show ?thesis by (simp add: truthy_def)
qed

text \<open>
  C3. In both services, with a client at hand, the result is composed component by
  component and every sub-operation is run to its end.

  First, over any three sub-operations in the exports (so also one that rejects, as a
  test double does): a rejected promise is replaced by the fallback of its own
  component (the fixed failure text, the empty list, \<^verbatim>\<open>Article\<close>), a fulfilled one
  gives its value, and the requests of all three are sent whichever of them fails.

  Second, for the services' own sub-operations: each component is decided by the
  provider's answer to that sub-operation's own request alone. A failed summary call
  gives the fixed failure text, an answered one the trimmed answer (or the
  placeholder); a failed tag call, an answer that does not parse and tags that
  cannot be cleaned give the empty list, otherwise the cleaned tags; the category is
  the URL's short cut, or \<^verbatim>\<open>Article\<close> for a failed call or an answer outside the
  three categories, otherwise the answer. So a failure of one call leaves the other
  two components at the values their own calls produced.
\<close>

theorem sub_operation_failure_isolated:
  assumes "truthy key"
  shows
  "claude_analyzeContent_on gs gt gc A url content key =
     (\<lparr>summary = (case fst (gs content url (A (the key))) of Inl e \<Rightarrow> summary_failed | Inr s \<Rightarrow> s),
       tags = (case fst (gt content url (A (the key))) of Inl e \<Rightarrow> [] | Inr ts \<Rightarrow> ts),
       category = (case fst (gc content url (A (the key))) of Inl e \<Rightarrow> ''Article'' | Inr c \<Rightarrow> c)\<rparr>,
      snd (gs content url (A (the key))) @ snd (gt content url (A (the key)))
      @ snd (gc content url (A (the key))))
   \<and> claude_analyzeContent A P url content key =
     (\<lparr>summary = (case A (the key) (claude_summary_request content url) of
                    Inl e \<Rightarrow> summary_failed
                  | Inr text \<Rightarrow> if trim text = [] then ''No summary available.'' else trim text),
       tags = (case A (the key) (claude_tags_request content url) of
                 Inl e \<Rightarrow> []
               | Inr text \<Rightarrow>
                   (case P text of
                      Inl e \<Rightarrow> []
                    | Inr v \<Rightarrow> (case clean_tags claude_genericTerms v of Inl e \<Rightarrow> [] | Inr ts \<Rightarrow> ts))),
       category =
         (if includes_str (toLowerCase url) ''youtube.com'' \<or> includes_str (toLowerCase url) ''youtu.be''
            \<or> includes_str (toLowerCase url) ''vimeo.com''
            \<or> includes_str (toLowerCase url) ''dailymotion.com''
          then ''Video''
          else if includes_str (toLowerCase url) ''arxiv.org'' \<or> includes_str (toLowerCase url) ''research''
                  \<or> includes_str (toLowerCase url) ''paper'' \<or> includes_str (toLowerCase url) ''doi.org''
          then ''Research''
          else (case A (the key) (claude_category_request content url) of
                  Inl e \<Rightarrow> ''Article''
                | Inr text \<Rightarrow> if trim text \<in> set valid_categories then trim text else ''Article''))\<rparr>,
      claude_summary_request content url # claude_tags_request content url
      # (if includes_str (toLowerCase url) ''youtube.com'' \<or> includes_str (toLowerCase url) ''youtu.be''
            \<or> includes_str (toLowerCase url) ''vimeo.com''
            \<or> includes_str (toLowerCase url) ''dailymotion.com''
           \<or> includes_str (toLowerCase url) ''arxiv.org'' \<or> includes_str (toLowerCase url) ''research''
           \<or> includes_str (toLowerCase url) ''paper'' \<or> includes_str (toLowerCase url) ''doi.org''
         then [] else [claude_category_request content url]))
   \<and> openai_analyzeContent_on os gt gc A url content key =
     (\<lparr>summary = (case fst (os content (A (the key))) of Inl e \<Rightarrow> summary_failed | Inr s \<Rightarrow> s),
       tags = (case fst (gt content url (A (the key))) of Inl e \<Rightarrow> [] | Inr ts \<Rightarrow> ts),
       category = (case fst (gc content url (A (the key))) of Inl e \<Rightarrow> ''Article'' | Inr c \<Rightarrow> c)\<rparr>,
      snd (os content (A (the key))) @ snd (gt content url (A (the key)))
      @ snd (gc content url (A (the key))))
   \<and> openai_analyzeContent A P url content key =
     (\<lparr>summary = (case A (the key) (openai_summary_request content) of
                    Inl e \<Rightarrow> summary_failed
                  | Inr text \<Rightarrow> if trim text = [] then ''No summary available.'' else trim text),
       tags = (case A (the key) (openai_tags_request content url) of
                 Inl e \<Rightarrow> []
               | Inr text \<Rightarrow>
                   (case P text of
                      Inl e \<Rightarrow> []
                    | Inr v \<Rightarrow> (case clean_tags openai_genericTerms v of Inl e \<Rightarrow> [] | Inr ts \<Rightarrow> ts))),
       category =
         (if includes_str (toLowerCase url) ''youtube.com'' \<or> includes_str (toLowerCase url) ''vimeo.com''
            \<or> includes_str (toLowerCase url) ''dailymotion.com''
            \<or> includes_str (toLowerCase url) ''video''
          then ''Video''
          else if includes_str (toLowerCase url) ''arxiv.org'' \<or> includes_str (toLowerCase url) ''research''
                  \<or> includes_str (toLowerCase url) ''paper'' \<or> includes_str (toLowerCase url) ''doi.org''
          then ''Research''
          else (case A (the key) (openai_category_request content url) of
                  Inl e \<Rightarrow> ''Article''
                | Inr text \<Rightarrow> if trim text \<in> set valid_categories then trim text else ''Article''))\<rparr>,
      openai_summary_request content # openai_tags_request content url
      # (if includes_str (toLowerCase url) ''youtube.com'' \<or> includes_str (toLowerCase url) ''vimeo.com''
            \<or> includes_str (toLowerCase url) ''dailymotion.com''
            \<or> includes_str (toLowerCase url) ''video''
           \<or> includes_str (toLowerCase url) ''arxiv.org'' \<or> includes_str (toLowerCase url) ''research''
           \<or> includes_str (toLowerCase url) ''paper'' \<or> includes_str (toLowerCase url) ''doi.org''
         then [] else [openai_category_request content url]))"
  by (intro conjI)
    (rule claude_analyzeContent_on_settled[OF assms] claude_analyzeContent_value[OF assms]
      openai_analyzeContent_on_settled[OF assms] openai_analyzeContent_value[OF assms])+

theorem sub_operation_failure_isolated_witness:
  "truthy (Some ''key'')
   \<and> fst (claude_analyzeContent_on (\<lambda>c u cl. (Inr ''S'', [])) (\<lambda>c u cl. (Inl TypeError, []))
          (\<lambda>c u cl. (Inr ''Video'', [])) (\<lambda>k r. Inl TypeError)
          ''https://example.com/post'' ''text'' (Some ''key''))
       = \<lparr>summary = ''S'', tags = [], category = ''Video''\<rparr>
   \<and> fst (openai_analyzeContent_on (\<lambda>c cl. (Inl TypeError, [])) (\<lambda>c u cl. (Inr [''rust''], []))
          (\<lambda>c u cl. (Inl TypeError, [])) (\<lambda>k r. Inl TypeError)
          ''https://example.com/post'' ''text'' (Some ''key''))
       = \<lparr>summary = summary_failed, tags = [''rust''], category = ''Article''\<rparr>
   \<and> fst (claude_analyzeContent
          (\<lambda>k r. if system r = TagsPrompt then Inl TypeError
                 else if system r = CategoryPrompt then Inr ''Research'' else Inr '' A summary. '')
          (\<lambda>s. Inl SyntaxError) ''https://example.com/post'' ''text'' (Some ''key''))
       = \<lparr>summary = ''A summary.'', tags = [], category = ''Research''\<rparr>
   \<and> fst (openai_analyzeContent
          (\<lambda>k r. if system r = SummaryPrompt then Inl TypeError
                 else if system r = CategoryPrompt then Inr ''Video'' else Inr ''tags'')
          (\<lambda>s. Inr (JArray [JString ''Rust''])) ''https://example.com/post'' ''text'' (Some ''key''))
       = \<lparr>summary = summary_failed, tags = [''rust''], category = ''Video''\<rparr>"
proof -
  have k: "truthy (Some ''key'')" by (simp add: truthy_def)
  note i1 = sub_operation_failure_isolated[OF k,
      where gs = "\<lambda>c u cl. (Inr ''S'', [])" and gt = "\<lambda>c u cl. (Inl TypeError, [])"
        and gc = "\<lambda>c u cl. (Inr ''Video'', [])" and A = "\<lambda>k r. Inl TypeError"
        and url = "''https://example.com/post''" and content = "''text''", THEN conjunct1]
  have 1: "fst (claude_analyzeContent_on (\<lambda>c u cl. (Inr ''S'', [])) (\<lambda>c u cl. (Inl TypeError, []))
          (\<lambda>c u cl. (Inr ''Video'', [])) (\<lambda>k r. Inl TypeError)
          ''https://example.com/post'' ''text'' (Some ''key''))
       = \<lparr>summary = ''S'', tags = [], category = ''Video''\<rparr>"
    by (simp add: i1)
  note i2 = sub_operation_failure_isolated[OF k,
      where os = "\<lambda>c cl. (Inl TypeError, [])" and gt = "\<lambda>c u cl. (Inr [''rust''], [])"
        and gc = "\<lambda>c u cl. (Inl TypeError, [])" and A = "\<lambda>k r. Inl TypeError"
        and url = "''https://example.com/post''" and content = "''text''",
      THEN conjunct2, THEN conjunct2, THEN conjunct1]
  have 2: "fst (openai_analyzeContent_on (\<lambda>c cl. (Inl TypeError, [])) (\<lambda>c u cl. (Inr [''rust''], []))
          (\<lambda>c u cl. (Inl TypeError, [])) (\<lambda>k r. Inl TypeError)
          ''https://example.com/post'' ''text'' (Some ''key''))
       = \<lparr>summary = summary_failed, tags = [''rust''], category = ''Article''\<rparr>"
    by (simp add: i2)
  let ?A = "\<lambda>(k::string) (r::request). if system r = TagsPrompt then (Inl TypeError :: error + string)
                 else if system r = CategoryPrompt then Inr ''Research'' else Inr '' A summary. ''"
  note i3 = sub_operation_failure_isolated[OF k,
      where A = ?A and P = "\<lambda>s. Inl SyntaxError"
        and url = "''https://example.com/post''" and content = "''text''",
      THEN conjunct2, THEN conjunct1]
  have 3: "fst (claude_analyzeContent ?A
          (\<lambda>s. Inl SyntaxError) ''https://example.com/post'' ''text'' (Some ''key''))
       = \<lparr>summary = ''A summary.'', tags = [], category = ''Research''\<rparr>"
    unfolding i3 by code_simp
  let ?B = "\<lambda>(k::string) (r::request). if system r = SummaryPrompt then (Inl TypeError :: error + string)
                 else if system r = CategoryPrompt then Inr ''Video'' else Inr ''tags''"
  note i4 = sub_operation_failure_isolated[OF k,
      where A = ?B and P = "\<lambda>s. Inr (JArray [JString ''Rust''])"
        and url = "''https://example.com/post''" and content = "''text''",
      THEN conjunct2, THEN conjunct2, THEN conjunct2]
  have 4: "fst (openai_analyzeContent ?B
          (\<lambda>s. Inr (JArray [JString ''Rust''])) ''https://example.com/post'' ''text'' (Some ''key''))
       = \<lparr>summary = summary_failed, tags = [''rust''], category = ''Video''\<rparr>"
    unfolding i4 by code_simp
  from k 1 2 3 4 show ?thesis by blast
qed


text \<open>
  C9, as stated: in both services the summary request carries a bounded prefix of the
  content. The Claude service sends the content whole (its comment says so): for a
  content of 5000 code units the request text has all 5000, where the OpenAI service
  sends 1000.
\<close>

theorem claude_summary_sends_full_content:
  "map user_content (snd (claude_generateSummary (replicate 5000 CHR ''a'') ''https://example.com''
       (\<lambda>r. Inr ''ok''))) = [replicate 5000 CHR ''a'']
   \<and> map (length \<circ> user_content) (snd (claude_generateSummary (replicate 5000 CHR ''a'')
       ''https://example.com'' (\<lambda>r. Inr ''ok''))) = [5000]
   \<and> map (length \<circ> user_content) (snd (openai_generateSummary (replicate 5000 CHR ''a'')
       (\<lambda>r. Inr ''ok''))) = [1000]"
  by (simp add: openai_generateSummary_def claude_generateSummary_def openai_summary_request_def
      claude_summary_request_def substring0_def Let_def)


text \<open>
  C9, amended: the OpenAI service sends exactly one summary request, whose text is
  the first 1000 code units of the content; the Claude service sends exactly one, whose
  text is the whole content.
\<close>

theorem summary_request_text:
  "map user_content (snd (openai_generateSummary content c)) = [take 1000 content]
   \<and> map user_content (snd (claude_generateSummary content url c)) = [content]"
  by (simp add: openai_generateSummary_def claude_generateSummary_def openai_summary_request_def
      claude_summary_request_def substring0_def Let_def split: sum.splits)

text \<open>
  C10. The short cut looks for the patterns anywhere in the lower-cased URL, not in
  the host. In the OpenAI service a URL whose lower-cased form contains \<^verbatim>\<open>video\<close>
  (so also a URL that contains it as written) gives \<^verbatim>\<open>Video\<close>; in both services a
  URL whose lower-cased form contains \<^verbatim>\<open>research\<close> or \<^verbatim>\<open>paper\<close>, with no video pattern
  of that service in it, gives \<^verbatim>\<open>Research\<close>; in each case no request is sent. A
  request is left out exactly when one of the service's eight patterns occurs in the
  lower-cased URL.
\<close>

theorem category_from_url_substring:
  "(includes_str (toLowerCase url) ''video''
      \<longrightarrow> openai_determineCategory content url c = (Inr ''Video'', []))
   \<and> (includes_str url ''video''
      \<longrightarrow> openai_determineCategory content url c = (Inr ''Video'', []))
   \<and> ((includes_str (toLowerCase url) ''research'' \<or> includes_str (toLowerCase url) ''paper'') \<and> \<not> (includes_str (toLowerCase url) ''youtube.com'' \<or> includes_str (toLowerCase url) ''vimeo.com''
            \<or> includes_str (toLowerCase url) ''dailymotion.com''
            \<or> includes_str (toLowerCase url) ''video'')
      \<longrightarrow> openai_determineCategory content url c = (Inr ''Research'', []))
   \<and> ((includes_str url ''research'' \<or> includes_str url ''paper'') \<and> \<not> (includes_str (toLowerCase url) ''youtube.com'' \<or> includes_str (toLowerCase url) ''vimeo.com''
            \<or> includes_str (toLowerCase url) ''dailymotion.com''
            \<or> includes_str (toLowerCase url) ''video'')
      \<longrightarrow> openai_determineCategory content url c = (Inr ''Research'', []))
   \<and> ((includes_str (toLowerCase url) ''research'' \<or> includes_str (toLowerCase url) ''paper'') \<and> \<not> (includes_str (toLowerCase url) ''youtube.com'' \<or> includes_str (toLowerCase url) ''youtu.be''
            \<or> includes_str (toLowerCase url) ''vimeo.com''
            \<or> includes_str (toLowerCase url) ''dailymotion.com'')
      \<longrightarrow> claude_determineCategory content url c = (Inr ''Research'', []))
   \<and> ((includes_str url ''research'' \<or> includes_str url ''paper'') \<and> \<not> (includes_str (toLowerCase url) ''youtube.com'' \<or> includes_str (toLowerCase url) ''youtu.be''
            \<or> includes_str (toLowerCase url) ''vimeo.com''
            \<or> includes_str (toLowerCase url) ''dailymotion.com'')
      \<longrightarrow> claude_determineCategory content url c = (Inr ''Research'', []))
   \<and> (snd (openai_determineCategory content url c) = []) =
       (includes_str (toLowerCase url) ''youtube.com'' \<or> includes_str (toLowerCase url) ''vimeo.com''
            \<or> includes_str (toLowerCase url) ''dailymotion.com''
            \<or> includes_str (toLowerCase url) ''video''
        \<or> includes_str (toLowerCase url) ''arxiv.org'' \<or> includes_str (toLowerCase url) ''research''
        \<or> includes_str (toLowerCase url) ''paper'' \<or> includes_str (toLowerCase url) ''doi.org'')
   \<and> (snd (claude_determineCategory content url c) = []) =
       (includes_str (toLowerCase url) ''youtube.com'' \<or> includes_str (toLowerCase url) ''youtu.be''
            \<or> includes_str (toLowerCase url) ''vimeo.com''
            \<or> includes_str (toLowerCase url) ''dailymotion.com''
        \<or> includes_str (toLowerCase url) ''arxiv.org'' \<or> includes_str (toLowerCase url) ''research''
        \<or> includes_str (toLowerCase url) ''paper'' \<or> includes_str (toLowerCase url) ''doi.org'')"
proof -
  have v: "includes_str url ''video'' \<Longrightarrow> includes_str (toLowerCase url) ''video''"
    using includes_str_toLowerCase lowered_patterns by blast
  have r: "includes_str url ''research'' \<or> includes_str url ''paper'' \<Longrightarrow> includes_str (toLowerCase url) ''research'' \<or> includes_str (toLowerCase url) ''paper''"
    using includes_str_toLowerCase lowered_patterns by blast
  have o1: "includes_str (toLowerCase url) ''video''
      \<Longrightarrow> openai_determineCategory content url c = (Inr ''Video'', [])"
    by (simp add: openai_determineCategory_def Let_def)
  have o2: "(includes_str (toLowerCase url) ''research'' \<or> includes_str (toLowerCase url) ''paper'') \<and> \<not> (includes_str (toLowerCase url) ''youtube.com'' \<or> includes_str (toLowerCase url) ''vimeo.com''
            \<or> includes_str (toLowerCase url) ''dailymotion.com''
            \<or> includes_str (toLowerCase url) ''video'')
      \<Longrightarrow> openai_determineCategory content url c = (Inr ''Research'', [])"
    by (auto simp: openai_determineCategory_def Let_def)
  have c2: "(includes_str (toLowerCase url) ''research'' \<or> includes_str (toLowerCase url) ''paper'') \<and> \<not> (includes_str (toLowerCase url) ''youtube.com'' \<or> includes_str (toLowerCase url) ''youtu.be''
            \<or> includes_str (toLowerCase url) ''vimeo.com''
            \<or> includes_str (toLowerCase url) ''dailymotion.com'')
      \<Longrightarrow> claude_determineCategory content url c = (Inr ''Research'', [])"
    by (auto simp: claude_determineCategory_def Let_def)
  have ot: "(snd (openai_determineCategory content url c) = []) =
       (includes_str (toLowerCase url) ''youtube.com'' \<or> includes_str (toLowerCase url) ''vimeo.com''
            \<or> includes_str (toLowerCase url) ''dailymotion.com''
            \<or> includes_str (toLowerCase url) ''video''
        \<or> includes_str (toLowerCase url) ''arxiv.org'' \<or> includes_str (toLowerCase url) ''research''
        \<or> includes_str (toLowerCase url) ''paper'' \<or> includes_str (toLowerCase url) ''doi.org'')"
    by (simp add: openai_determineCategory_def Let_def split: sum.splits)
  have ct: "(snd (claude_determineCategory content url c) = []) =
       (includes_str (toLowerCase url) ''youtube.com'' \<or> includes_str (toLowerCase url) ''youtu.be''
            \<or> includes_str (toLowerCase url) ''vimeo.com''
            \<or> includes_str (toLowerCase url) ''dailymotion.com''
        \<or> includes_str (toLowerCase url) ''arxiv.org'' \<or> includes_str (toLowerCase url) ''research''
        \<or> includes_str (toLowerCase url) ''paper'' \<or> includes_str (toLowerCase url) ''doi.org'')"
    by (simp add: claude_determineCategory_def Let_def split: sum.splits)
  from v r o1 o2 c2 ot ct show ?thesis by blast
qed

theorem category_from_url_substring_witness:
  "includes_str (toLowerCase ''https://example.com/VIDEOgames'') ''video''
   \<and> \<not> includes_str ''https://example.com/VIDEOgames'' ''video''
   \<and> openai_determineCategory ''text'' ''https://example.com/VIDEOgames'' (\<lambda>r. Inr ''Article'')
       = (Inr ''Video'', [])
   \<and> includes_str ''https://example.com/videogames'' ''video''
   \<and> openai_determineCategory ''text'' ''https://example.com/videogames'' (\<lambda>r. Inr ''Article'')
       = (Inr ''Video'', [])
   \<and> includes_str (toLowerCase ''https://NewsPaper.example.com/'') ''paper''
   \<and> openai_determineCategory ''text'' ''https://NewsPaper.example.com/'' (\<lambda>r. Inr ''Article'')
       = (Inr ''Research'', [])
   \<and> claude_determineCategory ''text'' ''https://NewsPaper.example.com/'' (\<lambda>r. Inr ''Article'')
       = (Inr ''Research'', [])
   \<and> includes_str ''https://newspaper.example.com/'' ''paper''
   \<and> openai_determineCategory ''text'' ''https://newspaper.example.com/'' (\<lambda>r. Inr ''Article'')
       = (Inr ''Research'', [])
   \<and> claude_determineCategory ''text'' ''https://newspaper.example.com/'' (\<lambda>r. Inr ''Article'')
       = (Inr ''Research'', [])"
proof -
  let ?c = "\<lambda>r::request. (Inr ''Article'' :: error + string)"
  have v1: "includes_str (toLowerCase ''https://example.com/VIDEOgames'') ''video''" by code_simp
  have n1: "\<not> includes_str ''https://example.com/VIDEOgames'' ''video''" by code_simp
  have v2: "includes_str ''https://example.com/videogames'' ''video''" by code_simp
  have p3: "includes_str (toLowerCase ''https://NewsPaper.example.com/'') ''paper''" by code_simp
  have p4: "includes_str ''https://newspaper.example.com/'' ''paper''" by code_simp
  have no3: "\<not> (includes_str (toLowerCase ''https://NewsPaper.example.com/'') ''youtube.com'' \<or> includes_str (toLowerCase ''https://NewsPaper.example.com/'') ''vimeo.com''
            \<or> includes_str (toLowerCase ''https://NewsPaper.example.com/'') ''dailymotion.com''
            \<or> includes_str (toLowerCase ''https://NewsPaper.example.com/'') ''video'')" by code_simp
  have nc3: "\<not> (includes_str (toLowerCase ''https://NewsPaper.example.com/'') ''youtube.com'' \<or> includes_str (toLowerCase ''https://NewsPaper.example.com/'') ''youtu.be''
            \<or> includes_str (toLowerCase ''https://NewsPaper.example.com/'') ''vimeo.com''
            \<or> includes_str (toLowerCase ''https://NewsPaper.example.com/'') ''dailymotion.com'')" by code_simp
  have no4: "\<not> (includes_str (toLowerCase ''https://newspaper.example.com/'') ''youtube.com'' \<or> includes_str (toLowerCase ''https://newspaper.example.com/'') ''vimeo.com''
            \<or> includes_str (toLowerCase ''https://newspaper.example.com/'') ''dailymotion.com''
            \<or> includes_str (toLowerCase ''https://newspaper.example.com/'') ''video'')" by code_simp
  have nc4: "\<not> (includes_str (toLowerCase ''https://newspaper.example.com/'') ''youtube.com'' \<or> includes_str (toLowerCase ''https://newspaper.example.com/'') ''youtu.be''
            \<or> includes_str (toLowerCase ''https://newspaper.example.com/'') ''vimeo.com''
            \<or> includes_str (toLowerCase ''https://newspaper.example.com/'') ''dailymotion.com'')" by code_simp
  from category_from_url_substring[of "''https://example.com/VIDEOgames''" "''text''" ?c] v1
  have 1: "openai_determineCategory ''text'' ''https://example.com/VIDEOgames'' ?c = (Inr ''Video'', [])"
    by blast
  from category_from_url_substring[of "''https://example.com/videogames''" "''text''" ?c] v2
  have 2: "openai_determineCategory ''text'' ''https://example.com/videogames'' ?c = (Inr ''Video'', [])"
    by blast
  from category_from_url_substring[of "''https://NewsPaper.example.com/''" "''text''" ?c] p3 no3 nc3
  have 3: "openai_determineCategory ''text'' ''https://NewsPaper.example.com/'' ?c = (Inr ''Research'', [])
     \<and> claude_determineCategory ''text'' ''https://NewsPaper.example.com/'' ?c = (Inr ''Research'', [])"
    by blast
  from category_from_url_substring[of "''https://newspaper.example.com/''" "''text''" ?c] p4 no4 nc4
  have 4: "openai_determineCategory ''text'' ''https://newspaper.example.com/'' ?c = (Inr ''Research'', [])
     \<and> claude_determineCategory ''text'' ''https://newspaper.example.com/'' ?c = (Inr ''Research'', [])"
    by blast
  from v1 n1 v2 p3 p4 1 2 3 4 show ?thesis by blast
qed

end
